theory Spec2Isabelle
  imports Main "HOL-Library.Char_ord" "HOL-Library.List_Lexorder"
begin

text \<open>
  A shallow embedding of the classification engine (\<open>classify_content_types.py\<close>) and of
  the naming engine (\<open>design_naming_conventions.py\<close>): each function of the two scripts
  that the properties below are about is a HOL function of the same name, an exception is
  the left injection of a sum, a loop is a recursion or a fold over its list, and the
  objects a loop mutates are passed on as its state. What the scripts take from the Python
  library and from their surroundings (regular expressions, the clock, the file system) is
  a parameter; strings, \<open>str\<close>, \<open>int\<close>, truthiness and the POSIX flavour of \<open>pathlib\<close>
  are modelled here.
\<close>

section \<open>Python values\<close>

text \<open>
  The two scripts read their inputs from JSON. A value is null, a boolean, an integer,
  a string or a list of values; floating point numbers are outside this development,
  and JSON objects are the dictionaries and records declared below. A string is the
  list of its code points, for code points below 256.
\<close>

datatype pyval = PNone | PBool bool | PInt int | PStr string | PList "pyval list"

text \<open>The exceptions the modelled code raises or lets through.\<close>

datatype exn = ValueError | TypeError | AttributeError | RegexError | RuntimeError

text \<open>A dictionary keeps insertion order: an association list with distinct keys.\<close>

type_synonym 'v dict = "(string \<times> 'v) list"

definition dict_get :: "'v dict \<Rightarrow> string \<Rightarrow> 'v option" where
  "dict_get d k = map_of d k"

definition dict_get_default :: "'v dict \<Rightarrow> string \<Rightarrow> 'v \<Rightarrow> 'v" where
  "dict_get_default d k dflt = (case map_of d k of None \<Rightarrow> dflt | Some v \<Rightarrow> v)"

text \<open>\<open>d.get(k)\<close> on JSON data: a missing key reads as \<open>None\<close>.\<close>

definition dict_get_none :: "pyval dict \<Rightarrow> string \<Rightarrow> pyval" where
  "dict_get_none d k = dict_get_default d k PNone"

text \<open>\<open>k in d\<close>.\<close>

definition has_key :: "'v dict \<Rightarrow> string \<Rightarrow> bool" where
  "has_key d k = (k \<in> fst ` set d)"

text \<open>\<open>d[k] = v\<close>: an existing key keeps its position, a new key goes last.\<close>

fun dict_set :: "'v dict \<Rightarrow> string \<Rightarrow> 'v \<Rightarrow> 'v dict" where
  "dict_set [] k v = [(k, v)]"
| "dict_set ((k', v') # d) k v = (if k' = k then (k, v) # d else (k', v') # dict_set d k v)"

text \<open>Truthiness: \<open>None\<close>, \<open>False\<close>, 0, the empty string and the empty list are falsy.\<close>

fun truthy :: "pyval \<Rightarrow> bool" where
  "truthy PNone = False"
| "truthy (PBool b) = b"
| "truthy (PInt i) = (i \<noteq> 0)"
| "truthy (PStr s) = (s \<noteq> [])"
| "truthy (PList xs) = (xs \<noteq> [])"

text \<open>\<open>a or b\<close>: the first operand when it is truthy, else the second as it is.\<close>

definition py_or :: "pyval \<Rightarrow> pyval \<Rightarrow> pyval" where
  "py_or a b = (if truthy a then a else b)"

subsection \<open>Strings\<close>

definition startswith :: "string \<Rightarrow> string \<Rightarrow> bool" where
  "startswith s p = (take (length p) s = p)"

text \<open>A leading dot is added to a text that has none.\<close>

definition dot_prefixed :: "string \<Rightarrow> string" where
  "dot_prefixed s = (if startswith s ''.'' then s else ''.'' @ s)"

definition lower_char :: "char \<Rightarrow> char" where
  "lower_char c =
     (let n = of_char c :: nat
      in if (65 \<le> n \<and> n \<le> 90) \<or> (192 \<le> n \<and> n \<le> 222 \<and> n \<noteq> 215)
         then char_of (n + 32) else c)"

definition py_lower :: "string \<Rightarrow> string" where
  "py_lower s = map lower_char s"

text \<open>The characters \<open>str.strip()\<close> removes, and \<open>str.isspace\<close> accepts.\<close>

definition is_space :: "char \<Rightarrow> bool" where
  "is_space c =
     (let n = of_char c :: nat
      in (9 \<le> n \<and> n \<le> 13) \<or> (28 \<le> n \<and> n \<le> 32) \<or> n = 133 \<or> n = 160)"

definition py_strip :: "string \<Rightarrow> string" where
  "py_strip s = rev (dropWhile is_space (rev (dropWhile is_space s)))"

fun py_join :: "string \<Rightarrow> string list \<Rightarrow> string" where
  "py_join sep [] = []"
| "py_join sep [x] = x"
| "py_join sep (x # y # ys) = x @ sep @ py_join sep (y # ys)"

text \<open>\<open>needle in haystack\<close> for strings.\<close>

fun contains :: "string \<Rightarrow> string \<Rightarrow> bool" where
  "contains [] needle = (needle = [])"
| "contains (c # cs) needle = (startswith (c # cs) needle \<or> contains cs needle)"

text \<open>
  \<open>s.replace(old, new)\<close>: the occurrences of \<open>old\<close> are found from the left and do not
  overlap. An empty \<open>old\<close> matches before every character and at the end.
\<close>

function replace_scan :: "string \<Rightarrow> string \<Rightarrow> string \<Rightarrow> string" where
  "replace_scan old new [] = []"
| "replace_scan old new (c # cs) =
     (if old \<noteq> [] \<and> startswith (c # cs) old
      then new @ replace_scan old new (drop (length old) (c # cs))
      else c # replace_scan old new cs)"
  by pat_completeness auto
termination
  by (relation "measure (\<lambda>(old, new, s). length s)") auto

definition py_replace :: "string \<Rightarrow> string \<Rightarrow> string \<Rightarrow> string" where
  "py_replace s old new =
     (if old = [] then new @ concat (map (\<lambda>c. c # new) s) else replace_scan old new s)"

subsection \<open>\<open>str()\<close>, \<open>repr()\<close> and \<open>int()\<close>\<close>

definition digit_char :: "nat \<Rightarrow> char" where
  "digit_char n = char_of (48 + n)"

function str_of_nat :: "nat \<Rightarrow> string" where
  "str_of_nat n = (if n < 10 then [digit_char n] else str_of_nat (n div 10) @ [digit_char (n mod 10)])"
  by pat_completeness auto
termination
  by (relation "measure id") auto

declare str_of_nat.simps [simp del]

definition str_of_int :: "int \<Rightarrow> string" where
  "str_of_int i = (if i < 0 then CHR ''-'' # str_of_nat (nat (- i)) else str_of_nat (nat i))"

definition hex_digit :: "nat \<Rightarrow> char" where
  "hex_digit n = (if n < 10 then char_of (48 + n) else char_of (87 + n))"

text \<open>\<open>repr\<close> of a string: the quote is the double quote only when the string holds a
  single quote and no double quote; the quote and the backslash are escaped, and so are
  the characters that are not printable.\<close>

definition repr_quote :: "string \<Rightarrow> char" where
  "repr_quote s = (if CHR 0x27 \<in> set s \<and> CHR 0x22 \<notin> set s then CHR 0x22 else CHR 0x27)"

definition repr_char :: "char \<Rightarrow> char \<Rightarrow> string" where
  "repr_char q c =
     (let n = of_char c :: nat
      in if c = q \<or> c = CHR 0x5C then [CHR 0x5C, c]
         else if n = 9 then [CHR 0x5C, CHR ''t'']
         else if n = 10 then [CHR 0x5C, CHR ''n'']
         else if n = 13 then [CHR 0x5C, CHR ''r'']
         else if n < 32 \<or> (127 \<le> n \<and> n \<le> 160) \<or> n = 173
         then [CHR 0x5C, CHR ''x'', hex_digit (n div 16), hex_digit (n mod 16)]
         else [c])"

definition repr_str :: "string \<Rightarrow> string" where
  "repr_str s = (let q = repr_quote s in q # concat (map (repr_char q) s) @ [q])"

fun py_repr :: "pyval \<Rightarrow> string" where
  "py_repr PNone = ''None''"
| "py_repr (PBool b) = (if b then ''True'' else ''False'')"
| "py_repr (PInt i) = str_of_int i"
| "py_repr (PStr s) = repr_str s"
| "py_repr (PList xs) = ''['' @ py_join '', '' (map py_repr xs) @ '']''"

fun py_str :: "pyval \<Rightarrow> string" where
  "py_str (PStr s) = s"
| "py_str v = py_repr v"

definition is_digit :: "char \<Rightarrow> bool" where
  "is_digit c = (let n = of_char c :: nat in 48 \<le> n \<and> n \<le> 57)"

definition digit_val :: "char \<Rightarrow> nat" where
  "digit_val c = of_char c - 48"

text \<open>The value of a string of decimal digits, most significant first.\<close>

definition nat_of_digits :: "string \<Rightarrow> nat" where
  "nat_of_digits ds = foldl (\<lambda>acc c. 10 * acc + digit_val c) 0 ds"

text \<open>
  The digits of an integer literal as \<open>int(str)\<close> reads it: decimal digits, with single
  underscores allowed between digits.
\<close>

fun int_digits_ok :: "string \<Rightarrow> bool" where
  "int_digits_ok [] = False"
| "int_digits_ok [c] = is_digit c"
| "int_digits_ok (c # d # cs) =
     (if is_digit c then
        (if d = CHR ''_'' then cs \<noteq> [] \<and> is_digit (hd cs) \<and> int_digits_ok cs
         else int_digits_ok (d # cs))
      else False)"

definition int_of_str :: "string \<Rightarrow> int option" where
  "int_of_str s =
     (let t = py_strip s;
          neg = (t \<noteq> [] \<and> hd t = CHR ''-'');
          body = (if t \<noteq> [] \<and> (hd t = CHR ''-'' \<or> hd t = CHR ''+'') then tl t else t)
      in if int_digits_ok body
         then (let n = int (nat_of_digits (filter (\<lambda>c. c \<noteq> CHR ''_'') body))
               in Some (if neg then - n else n))
         else None)"

text \<open>\<open>int(v)\<close>: a string that is no integer literal raises ValueError, a value that is
  neither a number nor a string raises TypeError.\<close>

fun py_int :: "pyval \<Rightarrow> exn + int" where
  "py_int (PInt i) = Inr i"
| "py_int (PBool b) = Inr (if b then 1 else 0)"
| "py_int (PStr s) = (case int_of_str s of None \<Rightarrow> Inl ValueError | Some i \<Rightarrow> Inr i)"
| "py_int PNone = Inl TypeError"
| "py_int (PList xs) = Inl TypeError"

text \<open>
  Iterating over a value, as a \<open>for\<close> loop or a comprehension does: a list gives its
  items, a string its characters (each a string), anything else raises TypeError.
\<close>

fun py_iter :: "pyval \<Rightarrow> exn + pyval list" where
  "py_iter (PList xs) = Inr xs"
| "py_iter (PStr s) = Inr (map (\<lambda>c. PStr [c]) s)"
| "py_iter v = Inl TypeError"

section \<open>Regular expressions\<close>

text \<open>
  The \<open>re\<close> module is a parameter of the development. \<open>re.compile(text, re.IGNORECASE)\<close>
  is a function from the pattern's text to its search predicate (\<open>pattern.search(s)\<close>
  finds a match), or to nothing when the text is no regular expression and
  \<open>re.error\<close> is raised.
\<close>

type_synonym regex_engine = "string \<Rightarrow> (string \<Rightarrow> bool) option"

record compiled_pattern =
  pattern_text :: string
  pattern_search :: "string \<Rightarrow> bool"

text \<open>A pattern the module compiles when it is loaded, searched in a text.\<close>

definition table_search :: "regex_engine \<Rightarrow> string \<Rightarrow> string \<Rightarrow> bool" where
  "table_search re pat s = (case re pat of None \<Rightarrow> False | Some m \<Rightarrow> m s)"

section \<open>Paths\<close>

text \<open>
  \<open>pathlib\<close> in its POSIX flavour, as far as the scripts use it: a path is a root
  (empty, one slash or exactly two slashes) and its components; empty components and
  single dots are dropped when a string is read.
\<close>

fun split_on :: "char \<Rightarrow> string \<Rightarrow> string list" where
  "split_on sep [] = [[]]"
| "split_on sep (c # cs) =
     (case split_on sep cs of
        [] \<Rightarrow> (if c = sep then [[], []] else [[c]])
      | w # ws \<Rightarrow> (if c = sep then [] # w # ws else (c # w) # ws))"

type_synonym path = "string \<times> string list"

definition path_root :: "string \<Rightarrow> string" where
  "path_root s =
     (if startswith s ''//'' \<and> \<not> startswith s ''///'' then ''//''
      else if startswith s ''/'' then ''/'' else [])"

definition Path :: "string \<Rightarrow> path" where
  "Path s = (path_root s, filter (\<lambda>c. c \<noteq> [] \<and> c \<noteq> ''.'') (split_on CHR ''/'' s))"

definition path_str :: "path \<Rightarrow> string" where
  "path_str p = (if fst p = [] \<and> snd p = [] then ''.'' else fst p @ py_join ''/'' (snd p))"

definition path_parent :: "path \<Rightarrow> path" where
  "path_parent p = (fst p, butlast (snd p))"

text \<open>\<open>p / name\<close>: an absolute right operand replaces the left one.\<close>

definition path_div :: "path \<Rightarrow> string \<Rightarrow> path" where
  "path_div p s = (let q = Path s in if fst q \<noteq> [] then q else (fst p, snd p @ snd q))"

definition path_name :: "path \<Rightarrow> string" where
  "path_name p = (if snd p = [] then [] else last (snd p))"

text \<open>The index of the last dot of a name, if it has one (\<open>str.rfind\<close>).\<close>

fun rfind_dot :: "string \<Rightarrow> nat option" where
  "rfind_dot [] = None"
| "rfind_dot (c # cs) =
     (case rfind_dot cs of
        Some i \<Rightarrow> Some (Suc i)
      | None \<Rightarrow> (if c = CHR ''.'' then Some 0 else None))"

text \<open>\<open>Path.suffix\<close>: the name from its last dot on, when that dot is neither the first
  nor the last character of the name.\<close>

definition path_suffix :: "path \<Rightarrow> string" where
  "path_suffix p =
     (let name = path_name p
      in case rfind_dot name of
           None \<Rightarrow> []
         | Some i \<Rightarrow> (if 0 < i \<and> i < length name - 1 then drop i name else []))"

section \<open>Category resolution (classify_content_types.py)\<close>

text \<open>
  \<open>choose_best_category\<close>: the loop over the priority list, with the pair
  (best_category, best_score) as its state, started at ("Unknown", -1).
\<close>

fun choose_step :: "int dict \<Rightarrow> string \<times> int \<Rightarrow> string \<Rightarrow> string \<times> int" where
  "choose_step scores (best_category, best_score) name =
     (let score = dict_get_default scores name 0
      in if score > best_score then (name, score) else (best_category, best_score))"

definition choose_best_category :: "int dict \<Rightarrow> string list \<Rightarrow> string \<times> int" where
  "choose_best_category scores priority = foldl (choose_step scores) (''Unknown'', -1) priority"

text \<open>The lines of \<open>Classifier.classify\<close> that follow the call: a best score of 0 or less
  is replaced by ("Unknown", 0).\<close>

definition resolve_winner :: "int dict \<Rightarrow> string list \<Rightarrow> string \<times> int" where
  "resolve_winner scores priority =
     (case choose_best_category scores priority of
        (best_category, best_score) \<Rightarrow>
          if best_score \<le> 0 then (''Unknown'', 0) else (best_category, best_score))"

section \<open>Triggers (classify_content_types.py)\<close>

text \<open>
  The dataclass \<open>Trigger\<close>. Python does not check the annotations of a dataclass: the
  field \<open>score\<close> stays a dynamic value, as a trigger built directly (not through
  \<open>from_dict\<close>) may hold any.
\<close>

record trigger =
  trigger_type :: string
  trigger_score :: pyval
  trigger_target :: string
  trigger_pattern :: "compiled_pattern option"
  trigger_values :: "string list"

text \<open>The items of \<open>payload.get("Values", [])\<close> that are not \<open>None\<close>.\<close>

definition payload_values :: "pyval dict \<Rightarrow> exn + pyval list" where
  "payload_values payload =
     (case py_iter (dict_get_default payload ''Values'' (PList [])) of
        Inl e \<Rightarrow> Inl e
      | Inr vs \<Rightarrow> Inr (filter (\<lambda>v. v \<noteq> PNone) vs))"

text \<open>\<open>re.compile(pattern_text, re.IGNORECASE)\<close> on a truthy value: only a string can
  be compiled.\<close>

definition compile_value :: "regex_engine \<Rightarrow> pyval \<Rightarrow> exn + compiled_pattern" where
  "compile_value re v =
     (case v of
        PStr s \<Rightarrow>
          (case re s of
             None \<Rightarrow> Inl RegexError
           | Some m \<Rightarrow> Inr \<lparr>pattern_text = s, pattern_search = m\<rparr>)
      | _ \<Rightarrow> Inl TypeError)"

definition from_dict :: "regex_engine \<Rightarrow> pyval dict \<Rightarrow> exn + trigger" where
  "from_dict re payload =
     (let trigger_type = py_lower (py_strip (py_str (dict_get_default payload ''Type'' (PStr []))))
      in case py_int (dict_get_default payload ''Score'' (PInt 0)) of
           Inl e \<Rightarrow> Inl e
         | Inr score \<Rightarrow>
             if score \<le> 0 then Inl ValueError
             else
               let target = py_str (dict_get_default payload ''Target'' (PStr ''FileName''))
               in if trigger_type = ''regex'' then
                    (let pattern_value = dict_get_none payload ''Pattern''
                     in if \<not> truthy pattern_value then Inl ValueError
                        else case compile_value re pattern_value of
                               Inl e \<Rightarrow> Inl e
                             | Inr pattern \<Rightarrow>
                                 Inr \<lparr>trigger_type = ''regex'', trigger_score = PInt score,
                                      trigger_target = target, trigger_pattern = Some pattern,
                                      trigger_values = []\<rparr>)
                  else if trigger_type = ''keyword'' then
                    (case payload_values payload of
                       Inl e \<Rightarrow> Inl e
                     | Inr vs \<Rightarrow>
                         let vals = map (\<lambda>v. py_lower (py_str v)) vs
                         in if vals = [] then Inl ValueError
                            else Inr \<lparr>trigger_type = ''keyword'', trigger_score = PInt score,
                                      trigger_target = ''FileName'', trigger_pattern = None,
                                      trigger_values = vals\<rparr>)
                  else if trigger_type = ''extension'' then
                    (case payload_values payload of
                       Inl e \<Rightarrow> Inl e
                     | Inr vs \<Rightarrow>
                         let vals = map (\<lambda>v. dot_prefixed (py_lower (py_str v))) vs
                         in if vals = [] then Inl ValueError
                            else Inr \<lparr>trigger_type = ''extension'', trigger_score = PInt score,
                                      trigger_target = ''FileName'', trigger_pattern = None,
                                      trigger_values = vals\<rparr>)
                  else Inl ValueError)"

section \<open>File records\<close>

record insight_tags =
  Persons :: "string list"
  Festivals :: "string list"
  ContextFlags :: "string list"

text \<open>What \<open>Trigger.describe\<close> and the heuristic bonuses put in the trace.\<close>

datatype trace =
    RegexTrace string string pyval
  | KeywordTrace "string list" pyval
  | ExtensionTrace "string list" pyval
  | PlainTrace string pyval
  | HeuristicTrace string int

text \<open>
  \<open>FileRecord\<close> after \<open>__post_init__\<close>. The fields that the constructor joins into
  \<open>extra_text\<close> are strings whenever construction succeeds; the others keep the value
  found in the input.
\<close>

record file_record =
  raw :: "pyval dict"
  rank :: pyval
  score :: pyval
  file_name :: pyval
  full_path :: string
  directory :: string
  file_size :: pyval
  size_bytes :: pyval
  modified :: pyval
  keyword_list :: "string list"
  keywords_lower :: "string set"
  extension :: string
  extension_lower :: string
  drive :: pyval
  file_exists :: bool
  extra_text :: string
  insights :: insight_tags
  category_scores :: "int dict"
  matched_triggers :: "trace list dict"
  winning_category :: string
  winning_score :: int

text \<open>\<open>raw.get(first) or raw.get(second)\<close>.\<close>

definition get_either :: "pyval dict \<Rightarrow> string \<Rightarrow> string \<Rightarrow> pyval" where
  "get_either d first second = py_or (dict_get_none d first) (dict_get_none d second)"

text \<open>A part of \<open>extra_text\<close>: a falsy part is left out, a truthy one must be a string
  for \<open>" ".join\<close>.\<close>

fun join_parts :: "pyval list \<Rightarrow> exn + string list" where
  "join_parts [] = Inr []"
| "join_parts (v # vs) =
     (if \<not> truthy v then join_parts vs
      else case v of
             PStr s \<Rightarrow> (case join_parts vs of Inl e \<Rightarrow> Inl e | Inr ss \<Rightarrow> Inr (s # ss))
           | _ \<Rightarrow> Inl TypeError)"

text \<open>\<open>x or ""\<close> for a field that is a string when it is truthy.\<close>

definition text_or_empty :: "pyval \<Rightarrow> string" where
  "text_or_empty v = (case v of PStr s \<Rightarrow> s | _ \<Rightarrow> [])"

definition post_init :: "pyval dict \<Rightarrow> exn + file_record" where
  "post_init d =
     (let rank_v = get_either d ''rank'' ''Rank'';
          score_v = get_either d ''score'' ''Score'';
          file_name0 = get_either d ''FileName'' ''filename'';
          full_path_raw = get_either d ''FullPath'' ''full_path''
      in (case (if \<not> truthy file_name0 \<and> truthy full_path_raw
                then (case full_path_raw of
                        PStr p \<Rightarrow> Inr (PStr (path_name (Path p)))
                      | _ \<Rightarrow> Inl TypeError)
                else Inr file_name0) of
            Inl e \<Rightarrow> Inl e
          | Inr file_name_v \<Rightarrow>
              (let full_path_v = py_or full_path_raw (PStr []);
                   directory_v = py_or (get_either d ''Directory'' ''directory'') (PStr []);
                   keywords_v = py_or (get_either d ''Keywords'' ''keywords'') (PList [])
               in (case py_iter keywords_v of
                     Inl e \<Rightarrow> Inl e
                   | Inr items \<Rightarrow>
                       (let kws = map py_str (filter (\<lambda>v. v \<noteq> PNone) items);
                            extension0 = py_or (get_either d ''Extension'' ''extension'') (PStr []);
                            ext = (if truthy extension0 \<and> \<not> startswith (py_str extension0) ''.''
                                   then ''.'' @ py_str extension0 else py_str extension0);
                            exists_value = (if has_key d ''Exists'' then dict_get_none d ''Exists''
                                            else dict_get_none d ''exists'')
                        in (case join_parts [py_or file_name_v (PStr []), full_path_v, directory_v,
                                             PStr (py_join '' '' kws)] of
                              Inl e \<Rightarrow> Inl e
                            | Inr parts \<Rightarrow>
                                Inr \<lparr>raw = d, rank = rank_v, score = score_v,
                                     file_name = file_name_v,
                                     full_path = text_or_empty full_path_v,
                                     directory = text_or_empty directory_v,
                                     file_size = get_either d ''Size'' ''size'',
                                     size_bytes = get_either d ''SizeBytes'' ''size_bytes'',
                                     modified = get_either d ''Modified'' ''modified'',
                                     keyword_list = kws,
                                     keywords_lower = set (map py_lower kws),
                                     extension = ext,
                                     extension_lower = py_lower ext,
                                     drive = get_either d ''Drive'' ''drive'',
                                     file_exists = truthy exists_value,
                                     extra_text = py_join '' '' parts,
                                     insights = \<lparr>Persons = [], Festivals = [], ContextFlags = []\<rparr>,
                                     category_scores = [],
                                     matched_triggers = [],
                                     winning_category = ''Unknown'',
                                     winning_score = 0\<rparr>))))))"

definition get_text_for_target :: "file_record \<Rightarrow> string \<Rightarrow> pyval" where
  "get_text_for_target r target =
     (if target = [] then py_or (file_name r) (PStr [])
      else
        let v = py_lower target
        in if v \<in> {''filename'', ''name''} then py_or (file_name r) (PStr [])
           else if v \<in> {''fullpath'', ''path''} then PStr (full_path r)
           else if v \<in> {''directory'', ''folder''} then PStr (directory r)
           else if v = ''keywords'' then PStr (py_join '' '' (keyword_list r))
           else py_or (file_name r) (PStr []))"

text \<open>\<open>Trigger.matches\<close>. \<open>pattern.search\<close> raises TypeError on a value that is no string.\<close>

definition matches :: "trigger \<Rightarrow> file_record \<Rightarrow> exn + bool" where
  "matches t r =
     (if trigger_type t = ''regex'' then
        (let v = get_text_for_target r (trigger_target t)
         in if \<not> truthy v then Inr False
            else case trigger_pattern t of
                   None \<Rightarrow> Inr False
                 | Some p \<Rightarrow> (case v of PStr s \<Rightarrow> Inr (pattern_search p s) | _ \<Rightarrow> Inl TypeError))
      else if trigger_type t = ''keyword'' then
        Inr (\<exists>v \<in> set (trigger_values t). v \<in> keywords_lower r)
      else if trigger_type t = ''extension'' then
        Inr (extension_lower r \<in> set (trigger_values t))
      else Inr False)"

definition describe :: "trigger \<Rightarrow> trace" where
  "describe t =
     (if trigger_type t = ''regex'' \<and> trigger_pattern t \<noteq> None
      then RegexTrace (trigger_target t) (pattern_text (the (trigger_pattern t))) (trigger_score t)
      else if trigger_type t = ''keyword'' then KeywordTrace (trigger_values t) (trigger_score t)
      else if trigger_type t = ''extension'' then ExtensionTrace (trigger_values t) (trigger_score t)
      else PlainTrace (trigger_type t) (trigger_score t))"

section \<open>Insights\<close>

definition word_pattern :: "string \<Rightarrow> string" where
  "word_pattern w = [CHR 0x5C, CHR ''b''] @ w @ [CHR 0x5C, CHR ''b'']"

definition PERSON_PATTERNS :: "(string \<times> string) list" where
  "PERSON_PATTERNS =
     [(word_pattern ''caleb'', ''Caleb_Stewart''),
      (word_pattern ''robyn'', ''Robyn_Stewart''),
      (word_pattern ''henry'', ''Henry_Stewart''),
      (word_pattern ''jay'', ''Jay_Ricks''),
      (word_pattern ''jock'', ''Jock_Bethune''),
      (word_pattern ''bethune'', ''Jock_Bethune''),
      (word_pattern ''stewart'', ''Stewart_Family'')]"

definition FESTIVAL_PATTERNS :: "(string \<times> string) list" where
  "FESTIVAL_PATTERNS =
     [(''all[ _-]*around'', ''All_Around_Film_Festival''),
      (''sundance'', ''Sundance_Film_Festival''),
      (''tribeca'', ''Tribeca_Film_Festival''),
      (''outfest'', ''Outfest''),
      (''slamdance'', ''Slamdance'')]"

definition CONTEXT_PATTERNS :: "(string \<times> string list) list" where
  "CONTEXT_PATTERNS =
     [(''production_meta'',
         [''behind[ _-]*the[ _-]*scenes'', word_pattern ''production'',
          word_pattern ''workflow'', ''film[ _-]*journey'']),
      (''subject_research'',
         [word_pattern ''history'', word_pattern ''research'', word_pattern ''background'']),
      (''technical_interview'',
         [word_pattern ''mixdown'', word_pattern ''audio''])]"

text \<open>\<open>sorted(s)\<close> for a set of strings given as the list of its members.\<close>

definition sorted_set :: "string list \<Rightarrow> string list" where
  "sorted_set xs = sort (remdups xs)"

definition prepare_insights :: "regex_engine \<Rightarrow> file_record \<Rightarrow> file_record" where
  "prepare_insights re r =
     (let persons = map snd (filter (\<lambda>(p, label). table_search re p (extra_text r)) PERSON_PATTERNS);
          festivals0 = map snd (filter (\<lambda>(p, label). table_search re p (extra_text r)) FESTIVAL_PATTERNS);
          festivals = (if ''festival'' \<in> keywords_lower r \<and> festivals0 = []
                       then [''Festival''] else festivals0);
          context_flags = map fst (filter (\<lambda>(flag, ps). \<exists>p \<in> set ps. table_search re p (extra_text r))
                                     CONTEXT_PATTERNS)
      in r\<lparr>insights := \<lparr>Persons = sorted_set persons, Festivals = sorted_set festivals,
                         ContextFlags = sorted_set context_flags\<rparr>\<rparr>)"

section \<open>Scoring\<close>

text \<open>\<open>matches.setdefault(name, []).append(item)\<close>.\<close>

definition trace_append :: "trace list dict \<Rightarrow> string \<Rightarrow> trace \<Rightarrow> trace list dict" where
  "trace_append m name item = dict_set m name (dict_get_default m name [] @ [item])"

text \<open>One heuristic bonus: a point for a category, when it is a key of the score map.\<close>

definition bonus :: "string \<Rightarrow> string \<Rightarrow> int dict \<times> trace list dict \<Rightarrow> int dict \<times> trace list dict" where
  "bonus name reason sm =
     (case sm of (scores, ms) \<Rightarrow>
        if has_key scores name
        then (dict_set scores name (dict_get_default scores name 0 + 1),
              trace_append ms name (HeuristicTrace reason 1))
        else (scores, ms))"

definition apply_insight_adjustments ::
  "file_record \<Rightarrow> int dict \<times> trace list dict \<Rightarrow> int dict \<times> trace list dict" where
  "apply_insight_adjustments r sm =
     (let sm1 = (if Festivals (insights r) \<noteq> []
                 then bonus ''Strategy_Documents'' ''Festival context bonus''
                        (bonus ''Interview_Transcripts'' ''Festival context bonus'' sm)
                 else sm);
          flags = set (ContextFlags (insights r));
          sm2 = (if ''production_meta'' \<in> flags
                 then bonus ''Production_Documents'' ''Production meta context'' sm1 else sm1);
          sm3 = (if ''subject_research'' \<in> flags
                 then bonus ''Data_Reports'' ''Subject research context'' sm2 else sm2)
      in if ''technical_interview'' \<in> flags
         then bonus ''Interview_Transcripts'' ''Technical interview context'' sm3 else sm3)"

text \<open>\<open>scores[name] += trigger.score\<close>: TypeError unless the score is a number.\<close>

fun add_score :: "int \<Rightarrow> pyval \<Rightarrow> exn + int" where
  "add_score s (PInt i) = Inr (s + i)"
| "add_score s (PBool b) = Inr (s + (if b then 1 else 0))"
| "add_score s v = Inl TypeError"

record category_config =
  config_name :: string
  triggers :: "trigger list"
  naming_convention :: pyval

text \<open>The triggers of one category, in declaration order, on one record.\<close>

fun run_triggers :: "trigger list \<Rightarrow> file_record \<Rightarrow> int \<times> trace list \<Rightarrow> exn + int \<times> trace list" where
  "run_triggers [] r acc = Inr acc"
| "run_triggers (t # ts) r acc =
     (case matches t r of
        Inl e \<Rightarrow> Inl e
      | Inr hit \<Rightarrow>
          if hit then
            (case add_score (fst acc) (trigger_score t) of
               Inl e \<Rightarrow> Inl e
             | Inr s \<Rightarrow> run_triggers ts r (s, snd acc @ [describe t]))
          else run_triggers ts r acc)"

record classifier =
  configs :: "category_config dict"
  priority :: "string list"

text \<open>The loop over the priority list that fills \<open>scores\<close> and \<open>matches\<close>.\<close>

fun score_categories ::
  "classifier \<Rightarrow> file_record \<Rightarrow> string list \<Rightarrow> int dict \<times> trace list dict
     \<Rightarrow> exn + int dict \<times> trace list dict" where
  "score_categories cl r [] sm = Inr sm"
| "score_categories cl r (name # names) sm =
     (case dict_get (configs cl) name of
        None \<Rightarrow> score_categories cl r names sm
      | Some config \<Rightarrow>
          (case run_triggers (triggers config) r
                  (dict_get_default (fst sm) name 0, dict_get_default (snd sm) name []) of
             Inl e \<Rightarrow> Inl e
           | Inr (s, tr) \<Rightarrow>
               score_categories cl r names (dict_set (fst sm) name s, dict_set (snd sm) name tr)))"

text \<open>\<open>Classifier.__init__\<close>: the priority names that are configured, each once, then
  the configured names that are left, in declaration order.\<close>

fun append_unseen :: "string list \<Rightarrow> string list \<Rightarrow> (string \<Rightarrow> bool) \<Rightarrow> string list" where
  "append_unseen seen [] keep = seen"
| "append_unseen seen (n # ns) keep =
     append_unseen (if keep n \<and> n \<notin> set seen then seen @ [n] else seen) ns keep"

definition Classifier :: "category_config list \<Rightarrow> string list \<Rightarrow> classifier" where
  "Classifier categories prio =
     (let cfgs = foldl (\<lambda>d cfg. dict_set d (config_name cfg) cfg) [] categories;
          seen = append_unseen [] prio (\<lambda>n. has_key cfgs n)
      in \<lparr>configs = cfgs, priority = append_unseen seen (map fst cfgs) (\<lambda>n. True)\<rparr>)"

text \<open>
  The body of the \<open>try\<close> in \<open>Classifier.classify\<close>, after \<open>prepare_insights\<close>: the record
  with its classification, or the exception that left the block.
\<close>

definition classify_record :: "classifier \<Rightarrow> file_record \<Rightarrow> exn + file_record" where
  "classify_record cl r =
     (case score_categories cl r (priority cl)
             (map (\<lambda>n. (n, 0)) (priority cl), map (\<lambda>n. (n, [])) (priority cl)) of
        Inl e \<Rightarrow> Inl e
      | Inr sm0 \<Rightarrow>
          (case apply_insight_adjustments r sm0 of (scores, ms) \<Rightarrow>
             (case resolve_winner scores (priority cl) of (best_category, best_score) \<Rightarrow>
                Inr (r\<lparr>category_scores := filter (\<lambda>(k, v). v > 0) scores,
                       matched_triggers := filter (\<lambda>(k, v). v \<noteq> []) ms,
                       winning_category := best_category,
                       winning_score := best_score\<rparr>))))"

type_synonym buckets = "file_record list dict"

text \<open>\<open>buckets.setdefault(name, []).append(record)\<close>.\<close>

definition bucket_append :: "buckets \<Rightarrow> string \<Rightarrow> file_record \<Rightarrow> buckets" where
  "bucket_append b name r = dict_set b name (dict_get_default b name [] @ [r])"

text \<open>
  One turn of the loop over the records. The state is the buckets, the error count and
  the records as the loop leaves them (the loop writes the classification into each).
\<close>

definition classify_step ::
  "regex_engine \<Rightarrow> classifier \<Rightarrow> buckets \<times> nat \<times> file_record list \<Rightarrow> file_record
     \<Rightarrow> buckets \<times> nat \<times> file_record list" where
  "classify_step re cl st r0 =
     (case st of (b, errors, done) \<Rightarrow>
        let r = prepare_insights re r0
        in (case classify_record cl r of
              Inr r' \<Rightarrow> (bucket_append b (winning_category r') r', errors, done @ [r'])
            | Inl e \<Rightarrow>
                (let r' = r\<lparr>winning_category := ''Unknown'', winning_score := 0\<rparr>
                 in (bucket_append b ''Unknown'' r', errors + 1, done @ [r']))))"

definition initial_buckets :: "classifier \<Rightarrow> buckets" where
  "initial_buckets cl = dict_set (map (\<lambda>n. (n, [])) (priority cl)) ''Unknown'' []"

definition classify ::
  "regex_engine \<Rightarrow> classifier \<Rightarrow> file_record list \<Rightarrow> buckets \<times> nat \<times> file_record list" where
  "classify re cl records = foldl (classify_step re cl) (initial_buckets cl, 0, []) records"

section \<open>Loading the classification config\<close>

record category_body =
  Triggers :: "pyval dict list"
  NamingConvention :: pyval

text \<open>\<open>list(dict.fromkeys(xs))\<close>: each name once, at its first place.\<close>

definition unique_names :: "string list \<Rightarrow> string list" where
  "unique_names xs = rev (remdups (rev xs))"

text \<open>The triggers of one category: a payload that raises ValueError is skipped, any
  other exception leaves the loader.\<close>

fun load_triggers :: "regex_engine \<Rightarrow> pyval dict list \<Rightarrow> exn + trigger list" where
  "load_triggers re [] = Inr []"
| "load_triggers re (payload # rest) =
     (case from_dict re payload of
        Inl ValueError \<Rightarrow> load_triggers re rest
      | Inl e \<Rightarrow> Inl e
      | Inr t \<Rightarrow> (case load_triggers re rest of Inl e \<Rightarrow> Inl e | Inr ts \<Rightarrow> Inr (t # ts)))"

fun load_categories ::
  "regex_engine \<Rightarrow> (string \<times> category_body) list \<Rightarrow> exn + category_config list" where
  "load_categories re [] = Inr []"
| "load_categories re ((name, body) # rest) =
     (case load_triggers re (Triggers body) of
        Inl e \<Rightarrow> Inl e
      | Inr ts \<Rightarrow>
          (case load_categories re rest of
             Inl e \<Rightarrow> Inl e
           | Inr cs \<Rightarrow>
               Inr (\<lparr>config_name = name, triggers = ts,
                     naming_convention = NamingConvention body\<rparr> # cs)))"

text \<open>
  \<open>load_config\<close> on the parsed JSON: the categories, the priority list and the naming
  map. A config without categories ends the run (\<open>SystemExit\<close>, here \<open>None\<close>).
\<close>

definition load_config ::
  "regex_engine \<Rightarrow> string list \<Rightarrow> (string \<times> category_body) list
     \<Rightarrow> (exn + category_config list \<times> string list \<times> pyval dict) option" where
  "load_config re category_priority categories_node =
     (if categories_node = [] then None
      else Some
        (case load_categories re categories_node of
           Inl e \<Rightarrow> Inl e
         | Inr categories \<Rightarrow>
             Inr (categories,
                  unique_names (unique_names category_priority @ map config_name categories),
                  map (\<lambda>(name, body). (name, NamingConvention body))
                    (filter (\<lambda>(name, body). truthy (NamingConvention body)) categories_node))))"

section \<open>Naming rules (design_naming_conventions.py)\<close>

definition DATE_FORMAT_REPLACEMENTS :: "(string \<times> string) list" where
  "DATE_FORMAT_REPLACEMENTS =
     [(''yyyy'', ''%Y''), (''yyy'', ''%Y''), (''yy'', ''%y''), (''MM'', ''%m''), (''dd'', ''%d''),
      (''HH'', ''%H''), (''hh'', ''%I''), (''mm'', ''%M''), (''ss'', ''%S'')]"

definition translate_date_format :: "string \<Rightarrow> string" where
  "translate_date_format net_format =
     foldl (\<lambda>result (token, replacement). py_replace result token replacement)
       net_format DATE_FORMAT_REPLACEMENTS"

text \<open>\<open>value.strip()\<close> raises AttributeError on a truthy value that is no string.\<close>

definition normalize_extension :: "pyval \<Rightarrow> exn + string" where
  "normalize_extension v =
     (if \<not> truthy v then Inr []
      else case v of
             PStr s \<Rightarrow> Inr (dot_prefixed (py_lower (py_strip s)))
           | _ \<Rightarrow> Inl AttributeError)"

definition normalize_keywords :: "pyval \<Rightarrow> exn + string list" where
  "normalize_keywords v =
     (case py_iter v of
        Inl e \<Rightarrow> Inl e
      | Inr items \<Rightarrow> Inr (map (\<lambda>item. py_lower (py_str item)) (filter (\<lambda>item. item \<noteq> PNone) items)))"

record name_context =
  ctx_file_name :: string
  ctx_full_path :: string
  ctx_extension :: string
  ctx_keywords :: "string list"

definition build_context :: "pyval dict \<Rightarrow> exn + name_context" where
  "build_context file_entry =
     (case normalize_extension (dict_get_none file_entry ''Extension'') of
        Inl e \<Rightarrow> Inl e
      | Inr ext \<Rightarrow>
          (case normalize_keywords (dict_get_default file_entry ''Keywords'' (PList [])) of
             Inl e \<Rightarrow> Inl e
           | Inr kws \<Rightarrow>
               Inr \<lparr>ctx_file_name = py_str (dict_get_default file_entry ''FileName'' (PStr [])),
                    ctx_full_path =
                      (if truthy (dict_get_none file_entry ''FullPath'')
                       then py_str (dict_get_default file_entry ''FullPath'' (PStr [])) else []),
                    ctx_extension = ext,
                    ctx_keywords = kws\<rparr>))"

text \<open>\<open>re.search(pattern, text, re.IGNORECASE) is not None\<close>.\<close>

definition re_search :: "regex_engine \<Rightarrow> string \<Rightarrow> string \<Rightarrow> exn + bool" where
  "re_search re pat s = (case re pat of None \<Rightarrow> Inl RegexError | Some m \<Rightarrow> Inr (m s))"

definition evaluate_condition :: "regex_engine \<Rightarrow> string \<Rightarrow> pyval \<Rightarrow> name_context \<Rightarrow> exn + bool" where
  "evaluate_condition re key expected ctx =
     (let lowered = py_lower key
      in if lowered = ''filename'' then re_search re (py_str expected) (ctx_file_name ctx)
         else if lowered = ''fullpath'' then
           (if ctx_full_path ctx = [] then Inr False
            else re_search re (py_str expected) (ctx_full_path ctx))
         else if lowered = ''keywords'' then
           (let required = (case expected of PList xs \<Rightarrow> xs | _ \<Rightarrow> [expected]);
                normalized = map (\<lambda>item. py_lower (py_str item))
                               (filter (\<lambda>item. item \<noteq> PNone) required)
            in if normalized = [] then Inr True
               else Inr (list_all (\<lambda>keyword. keyword \<in> set (ctx_keywords ctx)) normalized))
         else if lowered = ''extension'' then
           (case normalize_extension expected of
              Inl e \<Rightarrow> Inl e
            | Inr expected_value \<Rightarrow> Inr (ctx_extension ctx = expected_value))
         else Inr False)"

text \<open>
  The \<open>Condition\<close> of a rule is a JSON object or some other value (\<open>PNone\<close> when the
  key is missing); its \<open>Mapping\<close> and the category's \<open>DefaultMapping\<close> are objects or
  missing.
\<close>

datatype condition_node = CondDict "pyval dict" | CondOther pyval

record naming_rule =
  Condition :: condition_node
  RuleMapping :: "pyval dict option"

record naming_category =
  Pattern :: string
  Rules :: "naming_rule list"
  DefaultMapping :: "pyval dict option"

definition copy_mapping :: "pyval dict option \<Rightarrow> pyval dict" where
  "copy_mapping m = (case m of None \<Rightarrow> [] | Some d \<Rightarrow> d)"

text \<open>\<open>all(evaluate_condition(key, conditions[key], context) for key in conditions)\<close>:
  the conditions are tried in order and the first that fails, or raises, ends the
  search.\<close>

fun all_conditions :: "regex_engine \<Rightarrow> pyval dict \<Rightarrow> name_context \<Rightarrow> exn + bool" where
  "all_conditions re [] ctx = Inr True"
| "all_conditions re ((key, expected) # rest) ctx =
     (case evaluate_condition re key expected ctx of
        Inl e \<Rightarrow> Inl e
      | Inr ok \<Rightarrow> if ok then all_conditions re rest ctx else Inr False)"

fun first_matching_rule ::
  "regex_engine \<Rightarrow> naming_rule list \<Rightarrow> pyval dict option \<Rightarrow> name_context \<Rightarrow> exn + pyval dict" where
  "first_matching_rule re [] dflt ctx = Inr (copy_mapping dflt)"
| "first_matching_rule re (rule # rest) dflt ctx =
     (case Condition rule of
        CondOther v \<Rightarrow>
          if truthy v then first_matching_rule re rest dflt ctx
          else Inr (copy_mapping (RuleMapping rule))
      | CondDict conditions \<Rightarrow>
          (case all_conditions re conditions ctx of
             Inl e \<Rightarrow> Inl e
           | Inr ok \<Rightarrow>
               if ok then Inr (copy_mapping (RuleMapping rule))
               else first_matching_rule re rest dflt ctx))"

definition apply_rules :: "regex_engine \<Rightarrow> naming_category \<Rightarrow> name_context \<Rightarrow> exn + pyval dict" where
  "apply_rules re category_config ctx =
     first_matching_rule re (Rules category_config) (DefaultMapping category_config) ctx"

section \<open>Dates\<close>

record datetime =
  year :: nat
  month :: nat
  day :: nat
  hour :: nat
  minute :: nat
  second :: nat

definition digits_at :: "nat \<Rightarrow> string \<Rightarrow> bool" where
  "digits_at n s = (n \<le> length s \<and> list_all is_digit (take n s))"

definition is_date_sep :: "string \<Rightarrow> bool" where
  "is_date_sep s = (s \<noteq> [] \<and> (hd s = CHR ''-'' \<or> hd s = CHR ''_''))"

text \<open>
  \<open>DATE_TOKEN_PATTERN\<close> at the start of a string: eight digits, or else four digits,
  two digits and two digits with a hyphen or an underscore between them. The result is
  the year, month and day groups.
\<close>

definition date_token_here :: "string \<Rightarrow> (string \<times> string \<times> string) option" where
  "date_token_here s =
     (if digits_at 8 s then Some (take 4 s, take 2 (drop 4 s), take 2 (drop 6 s))
      else if digits_at 4 s \<and> is_date_sep (drop 4 s) \<and> digits_at 2 (drop 5 s)
              \<and> is_date_sep (drop 7 s) \<and> digits_at 2 (drop 8 s)
      then Some (take 4 s, take 2 (drop 5 s), take 2 (drop 8 s))
      else None)"

text \<open>\<open>DATE_TOKEN_PATTERN.search\<close>: the leftmost position with a match.\<close>

fun date_token_search :: "string \<Rightarrow> (string \<times> string \<times> string) option" where
  "date_token_search [] = None"
| "date_token_search (c # cs) =
     (case date_token_here (c # cs) of
        Some g \<Rightarrow> Some g
      | None \<Rightarrow> date_token_search cs)"

definition is_leap :: "nat \<Rightarrow> bool" where
  "is_leap y = (y mod 4 = 0 \<and> (y mod 100 \<noteq> 0 \<or> y mod 400 = 0))"

definition days_in_month :: "nat \<Rightarrow> nat \<Rightarrow> nat" where
  "days_in_month y m =
     (if m = 2 then (if is_leap y then 29 else 28)
      else if m \<in> {4, 6, 9, 11} then 30 else 31)"

text \<open>\<open>datetime.strptime\<close> on the groups of a date token: a year, month or day out of
  range raises ValueError (here \<open>None\<close>).\<close>

definition strptime_ymd :: "string \<times> string \<times> string \<Rightarrow> datetime option" where
  "strptime_ymd g =
     (case g of (ys, ms, ds) \<Rightarrow>
        let y = nat_of_digits ys; m = nat_of_digits ms; d = nat_of_digits ds
        in if 1 \<le> y \<and> 1 \<le> m \<and> m \<le> 12 \<and> 1 \<le> d \<and> d \<le> days_in_month y m
           then Some \<lparr>year = y, month = m, day = d, hour = 0, minute = 0, second = 0\<rparr>
           else None)"

text \<open>
  \<open>derive_date\<close>. Reading the stored modification value (the four \<open>strptime\<close> formats,
  then \<open>fromisoformat\<close>) and the clock are parameters: \<open>parse_modified\<close> answers the
  date of a string it can read, \<open>now\<close> is \<open>datetime.now()\<close>. A truthy modification
  value that is no string raises TypeError.
\<close>

definition derive_date ::
  "(string \<Rightarrow> datetime option) \<Rightarrow> datetime \<Rightarrow> string \<Rightarrow> pyval \<Rightarrow> exn + datetime" where
  "derive_date parse_modified now fname modified_value =
     (case (case date_token_search fname of None \<Rightarrow> None | Some g \<Rightarrow> strptime_ymd g) of
        Some d \<Rightarrow> Inr d
      | None \<Rightarrow>
          if truthy modified_value then
            (case modified_value of
               PStr s \<Rightarrow> (case parse_modified s of Some d \<Rightarrow> Inr d | None \<Rightarrow> Inr now)
             | _ \<Rightarrow> Inl TypeError)
          else Inr now)"

definition pad_left :: "nat \<Rightarrow> string \<Rightarrow> string" where
  "pad_left n s = replicate (n - length s) CHR ''0'' @ s"

text \<open>
  \<open>strftime\<close> for the directives of the translation table (and \<open>%%\<close>); the year is
  written with four digits. Any other directive is platform specific and is copied
  as it stands.
\<close>

definition strftime_directive :: "char \<Rightarrow> datetime \<Rightarrow> string" where
  "strftime_directive c d =
     (if c = CHR ''Y'' then pad_left 4 (str_of_nat (year d))
      else if c = CHR ''y'' then pad_left 2 (str_of_nat (year d mod 100))
      else if c = CHR ''m'' then pad_left 2 (str_of_nat (month d))
      else if c = CHR ''d'' then pad_left 2 (str_of_nat (day d))
      else if c = CHR ''H'' then pad_left 2 (str_of_nat (hour d))
      else if c = CHR ''I'' then pad_left 2 (str_of_nat (if hour d mod 12 = 0 then 12 else hour d mod 12))
      else if c = CHR ''M'' then pad_left 2 (str_of_nat (minute d))
      else if c = CHR ''S'' then pad_left 2 (str_of_nat (second d))
      else if c = CHR ''%'' then ''%''
      else [CHR ''%'', c])"

fun strftime :: "string \<Rightarrow> datetime \<Rightarrow> string" where
  "strftime [] d = []"
| "strftime [c] d = [c]"
| "strftime (c # c' # cs) d =
     (if c = CHR ''%'' then strftime_directive c' d @ strftime cs d
      else c # strftime (c' # cs) d)"

section \<open>Placeholders\<close>

text \<open>
  \<open>re.sub(r"\{[^}]+\}", "Unknown", s)\<close>: from the left, an opening brace followed by
  at least one character other than a closing brace, and then a closing brace, is
  replaced; the scan goes on after the closing brace.
\<close>

function sub_unknown :: "string \<Rightarrow> string" where
  "sub_unknown [] = []"
| "sub_unknown (c # cs) =
     (if c = CHR ''{'' \<and> takeWhile (\<lambda>x. x \<noteq> CHR ''}'') cs \<noteq> []
           \<and> dropWhile (\<lambda>x. x \<noteq> CHR ''}'') cs \<noteq> []
      then ''Unknown'' @ sub_unknown (tl (dropWhile (\<lambda>x. x \<noteq> CHR ''}'') cs))
      else c # sub_unknown cs)"
  by pat_completeness auto
termination
  apply (relation "measure length")
   apply simp
  apply (simp add: less_Suc_eq_le)
   apply (rule le_trans [OF diff_le_self length_dropWhile_le])
  apply simp
  done

definition placeholder_text :: "pyval \<Rightarrow> string" where
  "placeholder_text v =
     (let text = (if v = PNone then [] else py_str v) in if text = [] then ''Unknown'' else text)"

definition replace_placeholders :: "string \<Rightarrow> pyval dict \<Rightarrow> string" where
  "replace_placeholders pat mapping =
     sub_unknown
       (foldl (\<lambda>result (key, v). py_replace result (''{'' @ key @ ''}'') (placeholder_text v))
          pat mapping)"

section \<open>Building the rename mapping\<close>

definition setdefault :: "pyval dict \<Rightarrow> string \<Rightarrow> pyval \<Rightarrow> pyval dict" where
  "setdefault d k v = (if has_key d k then d else d @ [(k, v)])"

definition ensure_global_settings :: "pyval dict \<Rightarrow> pyval dict" where
  "ensure_global_settings global_settings =
     setdefault
       (setdefault (setdefault global_settings ''DateFormat'' (PStr ''yyyy-MM-dd''))
          ''HandleDuplicates'' (PStr ''AddVersion''))
       ''PreservePaths'' (PBool True)"

text \<open>
  What the naming step takes from its surroundings: the regular expression engine, the
  reader of stored modification times and the clock (see \<open>derive_date\<close>), the file
  system (\<open>Path(s).expanduser().resolve()\<close>, or nothing when it raises OSError or
  RuntimeError) and the directory of the script.
\<close>

record environment =
  env_re :: regex_engine
  env_parse_modified :: "string \<Rightarrow> datetime option"
  env_now :: datetime
  env_resolve :: "string \<Rightarrow> path option"
  env_script_dir :: path

text \<open>One \<open>try\<close> of \<open>resolve_destination\<close>: \<open>Path(v)\<close> raises TypeError on a value that
  is no string, which the \<open>except\<close> clause does not catch.\<close>

definition try_resolve :: "(string \<Rightarrow> path option) \<Rightarrow> pyval \<Rightarrow> exn + path option" where
  "try_resolve fs v =
     (if \<not> truthy v then Inr None
      else case v of PStr s \<Rightarrow> Inr (fs s) | _ \<Rightarrow> Inl TypeError)"

definition resolve_destination ::
  "(string \<Rightarrow> path option) \<Rightarrow> pyval dict \<Rightarrow> path \<Rightarrow> bool \<Rightarrow> exn + path" where
  "resolve_destination fs file_entry script_dir preserve_paths =
     (if preserve_paths then
        (case try_resolve fs (dict_get_none file_entry ''FullPath'') of
           Inl e \<Rightarrow> Inl e
         | Inr (Some p) \<Rightarrow> Inr (path_parent p)
         | Inr None \<Rightarrow>
             (case try_resolve fs (dict_get_none file_entry ''Directory'') of
                Inl e \<Rightarrow> Inl e
              | Inr (Some p) \<Rightarrow> Inr p
              | Inr None \<Rightarrow> Inr script_dir))
      else Inr script_dir)"

record rename_entry =
  OriginalFile :: "pyval dict"
  Category :: string
  OldFileName :: pyval
  NewFileName :: string
  OldPath :: pyval
  NewPath :: string
  Mapping :: "pyval dict"
  PatternUsed :: string

text \<open>The placeholders that are filled in when the pattern names them and the chosen
  mapping does not: Date, ext and Rank, in this order.\<close>

definition fill_mapping ::
  "environment \<Rightarrow> string \<Rightarrow> string \<Rightarrow> name_context \<Rightarrow> pyval dict \<Rightarrow> pyval dict
     \<Rightarrow> exn + pyval dict" where
  "fill_mapping env date_format pat ctx file_entry mapping =
     (case (if contains pat ''{Date}'' \<and> \<not> has_key mapping ''Date''
            then (case derive_date (env_parse_modified env) (env_now env) (ctx_file_name ctx)
                         (dict_get_none file_entry ''Modified'') of
                    Inl e \<Rightarrow> Inl e
                  | Inr date_value \<Rightarrow>
                      Inr (dict_set mapping ''Date'' (PStr (strftime date_format date_value))))
            else Inr mapping) of
        Inl e \<Rightarrow> Inl e
      | Inr m1 \<Rightarrow>
          let m2 = (if contains pat ''{ext}'' \<and> \<not> has_key m1 ''ext''
                    then dict_set m1 ''ext'' (PStr (ctx_extension ctx)) else m1)
          in Inr (if contains pat ''{Rank}'' \<and> \<not> has_key m2 ''Rank''
                  then dict_set m2 ''Rank''
                         (PStr (py_str (dict_get_default file_entry ''Rank'' (PStr []))))
                  else m2))"

text \<open>The body of the \<open>try\<close> in \<open>process_classification\<close>, for one file of a category.\<close>

definition process_entry ::
  "environment \<Rightarrow> pyval dict \<Rightarrow> string \<Rightarrow> naming_category \<Rightarrow> pyval dict \<Rightarrow> exn + rename_entry" where
  "process_entry env global_settings category_name category_config file_entry =
     (let date_format = translate_date_format
                          (py_str (dict_get_default global_settings ''DateFormat'' (PStr ''yyyy-MM-dd'')));
          pat = Pattern category_config
      in case build_context file_entry of
           Inl e \<Rightarrow> Inl e
         | Inr ctx \<Rightarrow>
             (case apply_rules (env_re env) category_config ctx of
                Inl e \<Rightarrow> Inl e
              | Inr mapping0 \<Rightarrow>
                  (case fill_mapping env date_format pat ctx file_entry mapping0 of
                     Inl e \<Rightarrow> Inl e
                   | Inr mapping \<Rightarrow>
                       let new_file_name = replace_placeholders pat mapping
                       in if new_file_name = [] then Inl RuntimeError
                          else
                            (case resolve_destination (env_resolve env) file_entry (env_script_dir env)
                                    (truthy (dict_get_default global_settings ''PreservePaths'' (PBool True))) of
                               Inl e \<Rightarrow> Inl e
                             | Inr destination \<Rightarrow>
                                 Inr \<lparr>OriginalFile = file_entry,
                                      Category = category_name,
                                      OldFileName = dict_get_none file_entry ''FileName'',
                                      NewFileName = new_file_name,
                                      OldPath = dict_get_none file_entry ''FullPath'',
                                      NewPath = path_str (path_div destination new_file_name),
                                      Mapping = mapping,
                                      PatternUsed = pat\<rparr>))))"

section \<open>Conflict resolution\<close>

definition entry_score :: "rename_entry \<Rightarrow> pyval" where
  "entry_score e = dict_get_default (OriginalFile e) ''Score'' (PInt 0)"

definition entry_rank :: "rename_entry \<Rightarrow> pyval" where
  "entry_rank e = dict_get_default (OriginalFile e) ''Rank'' (PStr ''?'')"


text \<open>
  \<open>items.sort(key=..., reverse=True)\<close>: the list is reversed, sorted stably and reversed
  again, so that entries with equal keys keep their order. Numbers (integers and
  booleans) are compared with numbers and strings with strings; any other comparison
  raises TypeError (a list as a score is taken as not comparable).
\<close>

definition numeric_key :: "pyval \<Rightarrow> int option" where
  "numeric_key v =
     (case v of PInt i \<Rightarrow> Some i | PBool b \<Rightarrow> Some (if b then 1 else 0) | _ \<Rightarrow> None)"


definition sort_desc :: "('a \<Rightarrow> 'k::linorder) \<Rightarrow> 'a list \<Rightarrow> 'a list" where
  "sort_desc f xs = rev (sort_key f (rev xs))"


text \<open>The new destination of an entry whose file name was rewritten: the parent of its
  old destination, and the new name.\<close>

definition relocate :: "rename_entry \<Rightarrow> rename_entry" where
  "relocate e = e\<lparr>NewPath := path_str (path_div (path_parent (Path (NewPath e))) (NewFileName e))\<rparr>"

definition file_stem :: "string \<Rightarrow> string" where
  "file_stem name =
     (let ext = path_suffix (Path name)
      in if ext \<noteq> [] then take (length name - length ext) name else name)"

text \<open>The body of the loop over a sorted group, for the entry at \<open>index\<close> > 0.\<close>

definition rewrite_entry :: "string \<Rightarrow> nat \<Rightarrow> rename_entry \<Rightarrow> rename_entry" where
  "rewrite_entry strategy index e =
     (let name = NewFileName e;
          ext = path_suffix (Path name);
          stem = file_stem name
      in if strategy = ''AddVersion''
         then relocate (e\<lparr>NewFileName := stem @ ''_v'' @ str_of_nat (index + 1) @ ext\<rparr>)
         else if strategy = ''AppendRank''
         then relocate (e\<lparr>NewFileName := stem @ ''_rank'' @ py_str (entry_rank e) @ ext\<rparr>)
         else e)"

fun resolve_sorted :: "string \<Rightarrow> nat list \<Rightarrow> nat \<Rightarrow> rename_entry list \<Rightarrow> rename_entry list" where
  "resolve_sorted strategy [] index es = es"
| "resolve_sorted strategy (i # rest) index es =
     resolve_sorted strategy rest (Suc index)
       (if index = 0 then es else es[i := rewrite_entry strategy index (es ! i)])"




section \<open>The naming run\<close>





section \<open>An engine for literal patterns\<close>

text \<open>
  An instance of the regular expression engine for the concrete runs below. On a pattern
  text made of letters, digits, spaces, hyphens and underscores, after an optional
  \<open>(?i)\<close>, it is \<open>re\<close>: the pattern is found where the text holds it, letter case
  ignored. It rejects every other pattern text.
\<close>

definition is_literal_char :: "char \<Rightarrow> bool" where
  "is_literal_char c =
     (let n = of_char c :: nat
      in (48 \<le> n \<and> n \<le> 57) \<or> (65 \<le> n \<and> n \<le> 90) \<or> (97 \<le> n \<and> n \<le> 122)
         \<or> n = 32 \<or> n = 45 \<or> n = 95)"

definition literal_engine :: regex_engine where
  "literal_engine pat =
     (let body = (if startswith pat ''(?i)'' then drop 4 pat else pat)
      in if list_all is_literal_char body
         then Some (\<lambda>s. contains (py_lower s) (py_lower body))
         else None)"

section \<open>Notions of the specification and sample inputs\<close>

text \<open>The keywords a \<open>keywords\<close> condition asks for, as \<open>evaluate_condition\<close> normalizes
  them.\<close>

definition required_keywords :: "pyval \<Rightarrow> string list" where
  "required_keywords expected =
     map (\<lambda>item. py_lower (py_str item))
       (filter (\<lambda>item. item \<noteq> PNone) (case expected of PList xs \<Rightarrow> xs | _ \<Rightarrow> [expected]))"

text \<open>The context of a file \<open>stats_report.csv\<close> with the keyword \<open>stats\<close>.\<close>

definition stats_context :: name_context where
  "stats_context = \<lparr>ctx_file_name = ''stats_report.csv'', ctx_full_path = ''/reports/stats_report.csv'',
                     ctx_extension = ''.csv'', ctx_keywords = [''stats'']\<rparr>"

text \<open>A rule that every record satisfies: its condition is missing, null or empty, or
  each of its conditions is a \<open>keywords\<close> condition that asks for no keyword.\<close>

definition always_satisfied :: "naming_rule \<Rightarrow> bool" where
  "always_satisfied rule =
     (case Condition rule of
        CondOther v \<Rightarrow> \<not> truthy v
      | CondDict conditions \<Rightarrow>
          list_all (\<lambda>(key, expected). py_lower key = ''keywords'' \<and> required_keywords expected = [])
            conditions)"

text \<open>Sample rules.\<close>

definition stats_rule :: naming_rule where
  "stats_rule = \<lparr>Condition = CondDict [(''FileName'', PStr ''stats'')],
                  RuleMapping = Some [(''Type'', PStr ''Statistics'')]\<rparr>"

definition empty_rule :: naming_rule where
  "empty_rule = \<lparr>Condition = CondDict [], RuleMapping = Some [(''Type'', PStr ''General'')]\<rparr>"

definition no_keywords_pdf_rule :: naming_rule where
  "no_keywords_pdf_rule =
     \<lparr>Condition = CondDict [(''keywords'', PList []), (''extension'', PStr ''.pdf'')],
      RuleMapping = Some [(''Type'', PStr ''Document'')]\<rparr>"

definition no_keywords_rule :: naming_rule where
  "no_keywords_rule = \<lparr>Condition = CondDict [(''Keywords'', PList [PNone])],
                        RuleMapping = Some [(''Type'', PStr ''Untagged'')]\<rparr>"

text \<open>Trigger payloads of a classification config.\<close>

definition null_score_payload :: "pyval dict" where
  "null_score_payload = [(''Type'', PStr ''Keyword''), (''Values'', PList [PStr ''caleb'']), (''Score'', PNone)]"

definition null_values_payload :: "pyval dict" where
  "null_values_payload = [(''Type'', PStr ''Keyword''), (''Values'', PNone), (''Score'', PInt 1)]"

definition bad_regex_payload :: "pyval dict" where
  "bad_regex_payload = [(''Type'', PStr ''Regex''), (''Pattern'', PStr ''(interview''), (''Score'', PInt 3)]"

definition unknown_type_payload :: "pyval dict" where
  "unknown_type_payload = [(''Type'', PStr ''Glob''), (''Pattern'', PStr ''interview''), (''Score'', PInt 3)]"

definition interview_payload :: "pyval dict" where
  "interview_payload = [(''Type'', PStr ''Regex''), (''Pattern'', PStr ''interview''), (''Score'', PInt 3)]"

text \<open>Scenario C: the file, the naming category and the global settings.\<close>

definition scenario_c_file :: "pyval dict" where
  "scenario_c_file =
     [(''FileName'', PStr ''stats_report_20240101.csv''),
      (''FullPath'', PStr ''C:/reports/stats_report_20240101.csv''),
      (''Extension'', PStr ''.csv''),
      (''Modified'', PStr ''2024-01-05T00:00:00''),
      (''Keywords'', PList [PStr ''stats'']),
      (''Rank'', PInt 4),
      (''Score'', PInt 88)]"

definition scenario_c_category :: naming_category where
  "scenario_c_category =
     \<lparr>Pattern = ''GW_Report_{Type}_{Date}.{ext}'',
      Rules = [\<lparr>Condition = CondDict [(''FileName'', PStr ''(?i)stats'')],
                RuleMapping = Some [(''Type'', PStr ''Statistics'')]\<rparr>],
      DefaultMapping = Some [(''Type'', PStr ''Analysis'')]\<rparr>"

definition scenario_c_settings :: "pyval dict" where
  "scenario_c_settings =
     ensure_global_settings [(''PreservePaths'', PBool False), (''DateFormat'', PStr ''yyyy-MM-dd'')]"

text \<open>Whether the \<open>try\<close> block of \<open>classify\<close> raises on a record, and the record as the
  loop leaves it.\<close>

definition raises :: "regex_engine \<Rightarrow> classifier \<Rightarrow> file_record \<Rightarrow> bool" where
  "raises re cl r = isl (classify_record cl (prepare_insights re r))"

definition outcome :: "regex_engine \<Rightarrow> classifier \<Rightarrow> file_record \<Rightarrow> file_record" where
  "outcome re cl r =
     (case classify_record cl (prepare_insights re r) of
        Inr r' \<Rightarrow> r'
      | Inl e \<Rightarrow> (prepare_insights re r)\<lparr>winning_category := ''Unknown'', winning_score := 0\<rparr>)"

text \<open>A record with a file name and an extension, a trigger built without a score, and
  a classifier with it.\<close>

definition sample_record :: "string \<Rightarrow> string \<Rightarrow> file_record" where
  "sample_record name ext =
     \<lparr>raw = [(''FileName'', PStr name), (''Extension'', PStr ext)],
      rank = PNone, score = PNone, file_name = PStr name, full_path = [], directory = [],
      file_size = PNone, size_bytes = PNone, modified = PNone, keyword_list = [],
      keywords_lower = set [], extension = ext, extension_lower = py_lower ext, drive = PNone,
      file_exists = False, extra_text = name,
      insights = \<lparr>Persons = [], Festivals = [], ContextFlags = []\<rparr>,
      category_scores = [], matched_triggers = [],
      winning_category = ''Unknown'', winning_score = 0\<rparr>"

definition unscored_trigger :: trigger where
  "unscored_trigger =
     \<lparr>trigger_type = ''extension'', trigger_score = PNone, trigger_target = ''FileName'',
      trigger_pattern = None, trigger_values = [''.md'']\<rparr>"

definition text_trigger :: trigger where
  "text_trigger =
     \<lparr>trigger_type = ''extension'', trigger_score = PInt 2, trigger_target = ''FileName'',
      trigger_pattern = None, trigger_values = [''.txt'']\<rparr>"

definition sample_classifier :: classifier where
  "sample_classifier =
     Classifier
       [\<lparr>config_name = ''System_Files'', triggers = [unscored_trigger], naming_convention = PNone\<rparr>,
        \<lparr>config_name = ''Notes'', triggers = [text_trigger], naming_convention = PNone\<rparr>]
       [''Notes'']"

subsection \<open>Patterns as segments\<close>

text \<open>
  A file name pattern read as the specification reads it: text without braces, and
  placeholders \<open>{Token}\<close> whose token is not empty and has no brace.
\<close>

datatype segment = Lit string | Tok string

fun render_segment :: "segment \<Rightarrow> string" where
  "render_segment (Lit s) = s"
| "render_segment (Tok t) = ''{'' @ t @ ''}''"

definition render :: "segment list \<Rightarrow> string" where
  "render segs = concat (map render_segment segs)"

definition brace_free :: "string \<Rightarrow> bool" where
  "brace_free s = (CHR ''{'' \<notin> set s \<and> CHR ''}'' \<notin> set s)"

fun well_formed_segment :: "segment \<Rightarrow> bool" where
  "well_formed_segment (Lit s) = brace_free s"
| "well_formed_segment (Tok t) = (t \<noteq> [] \<and> brace_free t)"

text \<open>What the specification asks of a segment: text stays, a token of the mapping becomes
  the rendered value, any other token becomes "Unknown".\<close>

fun fill_segment :: "pyval dict \<Rightarrow> segment \<Rightarrow> string" where
  "fill_segment mapping (Lit s) = s"
| "fill_segment mapping (Tok t) =
     (case map_of mapping t of Some v \<Rightarrow> placeholder_text v | None \<Rightarrow> ''Unknown'')"

text \<open>A placeholder at the start of a string, and anywhere in it: an opening brace, one or
  more characters other than a closing brace, and a closing brace.\<close>

definition token_here :: "string \<Rightarrow> bool" where
  "token_here s = (s \<noteq> [] \<and> hd s = CHR ''{'' \<and> takeWhile (\<lambda>x. x \<noteq> CHR ''}'') (tl s) \<noteq> []
                   \<and> dropWhile (\<lambda>x. x \<noteq> CHR ''}'') (tl s) \<noteq> [])"

fun has_token :: "string \<Rightarrow> bool" where
  "has_token [] = False"
| "has_token (c # cs) = (token_here (c # cs) \<or> has_token cs)"

text \<open>One replacement, and all replacements of a mapping, on a segment.\<close>

fun subst_segment :: "string \<Rightarrow> string \<Rightarrow> segment \<Rightarrow> segment" where
  "subst_segment k new (Lit s) = Lit s"
| "subst_segment k new (Tok t) = (if t = k then Lit new else Tok t)"

definition subst_all :: "pyval dict \<Rightarrow> segment \<Rightarrow> segment" where
  "subst_all mapping seg = foldl (\<lambda>sg (k, v). subst_segment k (placeholder_text v) sg) seg mapping"

text \<open>A segment after the last step of the substitution.\<close>

fun plain_segment :: "segment \<Rightarrow> string" where
  "plain_segment (Lit s) = s"
| "plain_segment (Tok t) = ''Unknown''"

subsection \<open>Conflict groups\<close>

text \<open>The positions of the entries with a given destination path, in list order.\<close>

definition positions :: "rename_entry list \<Rightarrow> string \<Rightarrow> nat list" where
  "positions es p = filter (\<lambda>i. NewPath (es ! i) = p) [0..<length es]"



definition sorted_group :: "rename_entry list \<Rightarrow> nat list \<Rightarrow> nat list" where
  "sorted_group es idxs = sort_desc (\<lambda>i. the (numeric_key (entry_score (es ! i)))) idxs"


















section \<open>Dictionaries\<close>

lemma map_of_dict_set: "map_of (dict_set d k v) = (map_of d)(k \<mapsto> v)"
  by (induction d) (auto simp: fun_eq_iff)

lemma dict_get_default_dict_set:
  "dict_get_default (dict_set d k v) k' dflt = (if k' = k then v else dict_get_default d k' dflt)"
  by (simp add: dict_get_default_def map_of_dict_set)

section \<open>Properties of category resolution\<close>

lemma Max_cons_later:
  fixes g :: "'a \<Rightarrow> int"
  assumes "n \<in> set xs" "g x < g n"
  shows "Max (g ` set (x # xs)) = Max (g ` set xs)" "g x \<noteq> Max (g ` set xs)"
proof -
  have ne: "g ` set xs \<noteq> {}" using assms by auto
  have "g n \<le> Max (g ` set xs)" using assms by simp
  then have lt: "g x < Max (g ` set xs)" using assms by linarith
  then show "g x \<noteq> Max (g ` set xs)" by simp
  show "Max (g ` set (x # xs)) = Max (g ` set xs)"
    using ne lt by (simp add: max_def)
qed

lemma Max_cons_first:
  fixes g :: "'a \<Rightarrow> int"
  assumes "\<forall>n \<in> set xs. g n \<le> g x"
  shows "Max (g ` set (x # xs)) = g x"
  using assms by (intro Max_eqI) auto

lemma choose_fold:
  "foldl (choose_step scores) (bc, bs) xs =
     (if \<exists>n \<in> set xs. dict_get_default scores n 0 > bs
      then (hd (filter (\<lambda>n. dict_get_default scores n 0 = Max ((\<lambda>n. dict_get_default scores n 0) ` set xs)) xs),
            Max ((\<lambda>n. dict_get_default scores n 0) ` set xs))
      else (bc, bs))"
proof (induction xs arbitrary: bc bs)
  case Nil
  then show ?case by simp
next
  case (Cons x xs)
  let ?g = "\<lambda>n. dict_get_default scores n 0"
  show ?case
  proof (cases "?g x > bs")
    case True
    note gx = True
    show ?thesis
    proof (cases "\<exists>n \<in> set xs. ?g n > ?g x")
      case True
      then obtain n where n: "n \<in> set xs" "?g x < ?g n" by blast
      from Max_cons_later[of n xs ?g x, OF n] True gx
      show ?thesis by (simp add: Cons.IH)
    next
      case False
      then have "\<forall>n \<in> set xs. ?g n \<le> ?g x" by auto
      from Max_cons_first[of xs ?g x, OF this] False gx
      show ?thesis by (simp add: Cons.IH)
    qed
  next
    case False
    note gx = False
    show ?thesis
    proof (cases "\<exists>n \<in> set xs. ?g n > bs")
      case True
      then obtain n where n: "n \<in> set xs" "bs < ?g n" by blast
      with gx have "?g x < ?g n" by linarith
      from Max_cons_later[of n xs ?g x, OF n(1) this] True gx
      show ?thesis by (simp add: Cons.IH)
    next
      case False
      with gx show ?thesis by (simp add: Cons.IH)
    qed
  qed
qed

text \<open>
  C2. The winner of category resolution: when some category of the priority list has a
  positive score, it is the first category in priority order whose score is the maximum
  over the list, together with that maximum (a later category replaces the best one only
  on a strictly greater score); otherwise, whichever category led, it is "Unknown" with
  score 0.
\<close>

theorem resolve_winner_first_maximum:
  "resolve_winner scores prio =
     (if \<exists>n \<in> set prio. 0 < dict_get_default scores n 0
      then (hd (filter (\<lambda>n. dict_get_default scores n 0 =
                          Max ((\<lambda>n. dict_get_default scores n 0) ` set prio)) prio),
            Max ((\<lambda>n. dict_get_default scores n 0) ` set prio))
      else (''Unknown'', 0))"
proof (cases "\<exists>n \<in> set prio. 0 < dict_get_default scores n 0")
  case True
  then obtain n where n: "n \<in> set prio" "0 < dict_get_default scores n 0" by blast
  then have "dict_get_default scores n 0 \<le> Max ((\<lambda>n. dict_get_default scores n 0) ` set prio)"
    by simp
  with n have pos: "0 < Max ((\<lambda>n. dict_get_default scores n 0) ` set prio)" by linarith
  from n have ex: "\<exists>n \<in> set prio. -1 < dict_get_default scores n 0" by force
  show ?thesis
    unfolding resolve_winner_def choose_best_category_def choose_fold
    using True ex pos by simp
next
  case False
  then have le: "\<forall>n \<in> set prio. dict_get_default scores n 0 \<le> 0" by force
  show ?thesis
  proof (cases "\<exists>n \<in> set prio. -1 < dict_get_default scores n 0")
    case True
    then have ne: "prio \<noteq> []" by auto
    have "Max ((\<lambda>n. dict_get_default scores n 0) ` set prio) \<le> 0"
      using le ne by simp
    then show ?thesis
      unfolding resolve_winner_def choose_best_category_def choose_fold
      using True False by simp
  next
    case F2: False
    show ?thesis
      unfolding resolve_winner_def choose_best_category_def choose_fold
      using F2 False by simp
  qed
qed

theorem resolve_winner_first_maximum_witness:
  "resolve_winner [(''A'', 2), (''B'', 5), (''C'', 5)] [''A'', ''B'', ''C''] = (''B'', 5)
   \<and> resolve_winner [(''A'', 0), (''B'', 0)] [''A'', ''B''] = (''Unknown'', 0)"
  using resolve_winner_first_maximum[of "[(''A'', 2), (''B'', 5), (''C'', 5)]" "[''A'', ''B'', ''C'']"]
        resolve_winner_first_maximum[of "[(''A'', 0), (''B'', 0)]" "[''A'', ''B'']"]
  by (simp add: dict_get_default_def)

section \<open>Properties of file record construction\<close>





section \<open>Properties of naming rule selection\<close>

text \<open>
  C6 (as amended). Condition evaluation has a field table of its own, not the one of
  trigger targets: it knows, letter case ignored, the keys filename, fullpath, keywords
  and extension. A filename or fullpath condition is a case-insensitive regular expression
  search in the file name or in the full path (false when the path is empty); a keywords
  condition holds when every keyword asked for is a keyword of the record; an extension
  condition compares normalized extensions. Any other key, the trigger aliases name,
  path, directory and folder among them, is not supported: the condition is false.
\<close>

theorem evaluate_condition_supported_keys:
  "(py_lower key = ''filename'' \<longrightarrow>
      evaluate_condition re key expected ctx = re_search re (py_str expected) (ctx_file_name ctx))
   \<and> (py_lower key = ''fullpath'' \<longrightarrow>
      evaluate_condition re key expected ctx =
        (if ctx_full_path ctx = [] then Inr False
         else re_search re (py_str expected) (ctx_full_path ctx)))
   \<and> (py_lower key = ''keywords'' \<longrightarrow>
      evaluate_condition re key expected ctx =
        Inr (set (required_keywords expected) \<subseteq> set (ctx_keywords ctx)))
   \<and> (py_lower key = ''extension'' \<longrightarrow>
      evaluate_condition re key expected ctx =
        (case normalize_extension expected of
           Inl e \<Rightarrow> Inl e
         | Inr wanted \<Rightarrow> Inr (ctx_extension ctx = wanted)))
   \<and> (py_lower key \<notin> {''filename'', ''fullpath'', ''keywords'', ''extension''} \<longrightarrow>
      evaluate_condition re key expected ctx = Inr False)"
  by (auto simp: evaluate_condition_def required_keywords_def Let_def list_all_iff filter_empty_conv)

text \<open>
  The claim as it was stated fails: the aliases name, path and folder and an unknown key
  give a false condition, where trigger target resolution reads the file name.
\<close>

theorem evaluate_condition_alias_counterexample:
  "evaluate_condition literal_engine ''name'' (PStr ''stats'') stats_context = Inr False
   \<and> evaluate_condition literal_engine ''FileName'' (PStr ''stats'') stats_context = Inr True
   \<and> evaluate_condition literal_engine ''path'' (PStr ''reports'') stats_context = Inr False
   \<and> evaluate_condition literal_engine ''folder'' (PStr ''reports'') stats_context = Inr False
   \<and> evaluate_condition literal_engine ''owner'' (PStr ''stats'') stats_context = Inr False
   \<and> map_sum id (\<lambda>r. get_text_for_target r ''name'')
         (post_init [(''FileName'', PStr ''stats_report.csv'')]) = Inr (PStr ''stats_report.csv'')
   \<and> map_sum id (\<lambda>r. get_text_for_target r ''owner'')
         (post_init [(''FileName'', PStr ''stats_report.csv'')]) = Inr (PStr ''stats_report.csv'')"
  by code_simp

theorem evaluate_condition_supported_keys_witness:
  "evaluate_condition literal_engine ''FileName'' (PStr ''stats'') stats_context = Inr True
   \<and> evaluate_condition literal_engine ''FULLPATH'' (PStr ''reports'') stats_context = Inr True
   \<and> evaluate_condition literal_engine ''Keywords'' (PList [PStr ''Stats'', PNone]) stats_context = Inr True
   \<and> evaluate_condition literal_engine ''extension'' (PStr ''CSV'') stats_context = Inr True
   \<and> evaluate_condition literal_engine ''directory'' (PStr ''reports'') stats_context = Inr False"
proof -
  have k: "py_lower ''FileName'' = ''filename''" "py_lower ''FULLPATH'' = ''fullpath''"
          "py_lower ''Keywords'' = ''keywords''" "py_lower ''extension'' = ''extension''"
          "py_lower ''directory'' \<notin> {''filename'', ''fullpath'', ''keywords'', ''extension''}"
    by code_simp+
  have v: "re_search literal_engine (py_str (PStr ''stats'')) (ctx_file_name stats_context) = Inr True"
          "ctx_full_path stats_context \<noteq> []"
          "re_search literal_engine (py_str (PStr ''reports'')) (ctx_full_path stats_context) = Inr True"
          "set (required_keywords (PList [PStr ''Stats'', PNone])) \<subseteq> set (ctx_keywords stats_context)"
          "normalize_extension (PStr ''CSV'') = Inr ''.csv''" "ctx_extension stats_context = ''.csv''"
    by code_simp+
  show ?thesis
    using evaluate_condition_supported_keys [of "''FileName''" literal_engine "PStr ''stats''" stats_context]
          evaluate_condition_supported_keys [of "''FULLPATH''" literal_engine "PStr ''reports''" stats_context]
          evaluate_condition_supported_keys [of "''Keywords''" literal_engine "PList [PStr ''Stats'', PNone]" stats_context]
          evaluate_condition_supported_keys [of "''extension''" literal_engine "PStr ''CSV''" stats_context]
          evaluate_condition_supported_keys [of "''directory''" literal_engine "PStr ''reports''" stats_context]
          k v
    by simp
qed

lemma all_conditions_vacuous:
  "list_all (\<lambda>(key, expected). py_lower key = ''keywords'' \<and> required_keywords expected = []) conds
   \<Longrightarrow> all_conditions re conds ctx = Inr True"
  by (induction conds) (auto simp: evaluate_condition_def required_keywords_def Let_def)

lemma first_matching_rule_vacuous:
  assumes "always_satisfied rule"
  shows "first_matching_rule re (pre @ rule # post) dflt ctx =
         first_matching_rule re pre (RuleMapping rule) ctx"
proof (induction pre)
  case Nil
  show ?case
    using assms all_conditions_vacuous [of _ re ctx]
    by (auto simp: always_satisfied_def split: condition_node.splits)
next
  case (Cons r pre)
  then show ?case
    by (simp split: condition_node.splits sum.splits)
qed

text \<open>
  C9 (as amended). A rule that every record satisfies stands for the default of the rules
  before it: the rules after it and the category's \<open>DefaultMapping\<close> are never consulted,
  and it is selected whenever no earlier rule matches.
\<close>

theorem apply_rules_vacuous_rule_shadows:
  assumes "always_satisfied rule"
  shows "apply_rules re \<lparr>Pattern = pat, Rules = pre @ rule # post, DefaultMapping = dflt\<rparr> ctx =
         apply_rules re \<lparr>Pattern = pat, Rules = pre, DefaultMapping = RuleMapping rule\<rparr> ctx"
  using first_matching_rule_vacuous [OF assms] by (simp add: apply_rules_def)

text \<open>
  The claim as it was stated fails: a rule with an empty keywords condition and a second
  condition that fails is not satisfied (the default mapping is used), and a rule with an
  empty condition is not selected when an earlier rule matches.
\<close>

theorem apply_rules_vacuous_counterexample:
  "apply_rules literal_engine
     \<lparr>Pattern = ''GW_{Type}'', Rules = [no_keywords_pdf_rule],
      DefaultMapping = Some [(''Type'', PStr ''Analysis'')]\<rparr> stats_context
     = Inr [(''Type'', PStr ''Analysis'')]
   \<and> apply_rules literal_engine
     \<lparr>Pattern = ''GW_{Type}'', Rules = [stats_rule, empty_rule],
      DefaultMapping = Some [(''Type'', PStr ''Analysis'')]\<rparr> stats_context
     = Inr [(''Type'', PStr ''Statistics'')]"
  by code_simp

theorem apply_rules_vacuous_rule_shadows_witness:
  "always_satisfied no_keywords_rule
   \<and> apply_rules literal_engine
        \<lparr>Pattern = ''GW_{Type}'', Rules = [] @ no_keywords_rule # [stats_rule],
         DefaultMapping = Some [(''Type'', PStr ''Analysis'')]\<rparr> stats_context
       = Inr [(''Type'', PStr ''Untagged'')]"
proof -
  have a: "always_satisfied no_keywords_rule" by code_simp
  have "apply_rules literal_engine
          \<lparr>Pattern = ''GW_{Type}'', Rules = [], DefaultMapping = RuleMapping no_keywords_rule\<rparr>
          stats_context = Inr [(''Type'', PStr ''Untagged'')]"
    by code_simp
  with apply_rules_vacuous_rule_shadows [OF a, of literal_engine "''GW_{Type}''" "[]" "[stats_rule]"
         "Some [(''Type'', PStr ''Analysis'')]" stats_context] a
  show ?thesis by simp
qed

section \<open>Properties of config loading\<close>

text \<open>
  C8. Construction fails on a null score and on null values, but with TypeError, which the
  loader of the config does not catch: the load ends there instead of skipping the one
  trigger.
\<close>

theorem load_config_null_score_aborts:
  "map_sum id (\<lambda>t. ()) (from_dict re null_score_payload) = Inl TypeError
   \<and> map_option (map_sum id (\<lambda>c. ()))
        (load_config re [] [(''Interview_Transcripts'',
           \<lparr>Triggers = [null_score_payload, interview_payload], NamingConvention = PNone\<rparr>)])
       = Some (Inl TypeError)
   \<and> map_sum id (\<lambda>t. ()) (from_dict re null_values_payload) = Inl TypeError
   \<and> map_option (map_sum id (\<lambda>c. ()))
        (load_config re [] [(''Interview_Transcripts'',
           \<lparr>Triggers = [null_values_payload, interview_payload], NamingConvention = PNone\<rparr>)])
       = Some (Inl TypeError)"
  by code_simp

text \<open>A failure that raises ValueError (here an unknown trigger type) skips the one
  trigger and keeps the next; a pattern that the engine rejects ends the load too.\<close>

lemma load_config_skips_value_errors:
  "map_option (map_sum id (\<lambda>(cs, prio, nm). (map (\<lambda>c. (config_name c, map trigger_type (triggers c), map trigger_score (triggers c))) cs, prio)))
     (load_config literal_engine [] [(''Interview_Transcripts'',
          \<lparr>Triggers = [unknown_type_payload, interview_payload], NamingConvention = PNone\<rparr>)])
   = Some (Inr ([(''Interview_Transcripts'', [''regex''], [PInt 3])], [''Interview_Transcripts'']))
  \<and> map_option (map_sum id (\<lambda>c. ()))
       (load_config literal_engine [] [(''Interview_Transcripts'',
          \<lparr>Triggers = [bad_regex_payload, interview_payload], NamingConvention = PNone\<rparr>)])
       = Some (Inl RegexError)"
  by code_simp

section \<open>Scenario C\<close>

text \<open>
  C5. In scenario C the date comes from the date token of the file name, whatever the
  stored modification time and the clock are; but the extension keeps its dot
  (\<open>normalize_extension\<close>) and the pattern writes a dot before \<open>{ext}\<close>, so the
  generated name ends in two dots before csv.
\<close>

theorem scenario_c_doubles_the_dot:
  "map_sum id (\<lambda>e. (NewFileName e, Mapping e))
     (process_entry
        \<lparr>env_re = literal_engine, env_parse_modified = parse_modified, env_now = now,
         env_resolve = fs, env_script_dir = script_dir\<rparr>
        scenario_c_settings ''Data_Reports'' scenario_c_category scenario_c_file)
   = Inr (''GW_Report_Statistics_2024-01-01..csv'',
          [(''Type'', PStr ''Statistics''), (''Date'', PStr ''2024-01-01''), (''ext'', PStr ''.csv'')])"
  by code_simp

section \<open>Properties of the classification loop\<close>

lemma bucket_append_get:
  "dict_get_default (bucket_append b name r) n [] =
     dict_get_default b n [] @ (if n = name then [r] else [])"
  by (simp add: bucket_append_def dict_get_default_dict_set)

lemma classify_step_outcome:
  "classify_step re cl (b, e, d) r =
     (bucket_append b (winning_category (outcome re cl r)) (outcome re cl r),
      e + (if raises re cl r then 1 else 0),
      d @ [outcome re cl r])"
  by (simp add: classify_step_def outcome_def raises_def Let_def split: sum.splits)

lemma classify_fold:
  "foldl (classify_step re cl) (b, e, d) records = (b', e', d') \<Longrightarrow>
     d' = d @ map (outcome re cl) records
     \<and> e' = e + length (filter (raises re cl) records)
     \<and> (\<forall>n. dict_get_default b' n [] =
              dict_get_default b n [] @ filter (\<lambda>r'. winning_category r' = n) (map (outcome re cl) records))"
proof (induction records arbitrary: b e d)
  case Nil
  then show ?case by simp
next
  case (Cons r records)
  from Cons.prems have
    "foldl (classify_step re cl)
       (bucket_append b (winning_category (outcome re cl r)) (outcome re cl r),
        e + (if raises re cl r then 1 else 0), d @ [outcome re cl r]) records = (b', e', d')"
    by (simp add: classify_step_outcome)
  from Cons.IH [OF this] show ?case
    by (auto simp: bucket_append_get)
qed

lemma initial_buckets_empty: "dict_get_default (initial_buckets cl) n [] = []"
proof -
  have "map_of (map (\<lambda>n. (n, [] :: file_record list)) (priority cl)) n = None
        \<or> map_of (map (\<lambda>n. (n, [] :: file_record list)) (priority cl)) n = Some []"
    by (induction "priority cl" arbitrary: cl) (auto simp: map_of_map_restrict restrict_map_def)
  then show ?thesis
    by (auto simp: initial_buckets_def dict_get_default_def map_of_dict_set)
qed

lemma raises_outcome:
  "raises re cl r \<Longrightarrow> winning_category (outcome re cl r) = ''Unknown'' \<and> winning_score (outcome re cl r) = 0"
  by (auto simp: raises_def outcome_def split: sum.splits)

text \<open>
  C7. The loop over a batch always returns, and each record has its own outcome: a record
  whose classification raises leaves the loop with the winning category "Unknown" and
  the winning score 0 and is put in the "Unknown" bucket, the loop goes on with the
  records after it, and the error count that is returned is the number of records whose
  classification raised. Every bucket holds the records that won it, in the order of
  the batch.
\<close>

theorem classify_isolates_record_errors:
  assumes "classify re cl records = (b, errors, done)"
  shows "done = map (outcome re cl) records
       \<and> errors = length (filter (raises re cl) records)
       \<and> (\<forall>n. dict_get_default b n [] = filter (\<lambda>r'. winning_category r' = n) done)
       \<and> (\<forall>r \<in> set records. raises re cl r \<longrightarrow>
             winning_category (outcome re cl r) = ''Unknown''
             \<and> winning_score (outcome re cl r) = 0
             \<and> outcome re cl r \<in> set (dict_get_default b ''Unknown'' []))"
proof -
  from assms have
    f: "foldl (classify_step re cl) (initial_buckets cl, 0, []) records = (b, errors, done)"
    by (simp add: classify_def)
  from classify_fold [OF f] have
    d: "done = map (outcome re cl) records"
    and e: "errors = length (filter (raises re cl) records)"
    and g: "\<And>n. dict_get_default b n [] = filter (\<lambda>r'. winning_category r' = n) done"
    by (simp_all add: initial_buckets_empty)
  have "winning_category (outcome re cl r) = ''Unknown'' \<and> winning_score (outcome re cl r) = 0
        \<and> outcome re cl r \<in> set (dict_get_default b ''Unknown'' [])"
    if "r \<in> set records" "raises re cl r" for r
    using that raises_outcome [OF that(2)] by (simp add: g d)
  with d e g show ?thesis by blast
qed

theorem classify_isolates_record_errors_witness:
  "\<exists>b done. classify literal_engine sample_classifier
               [sample_record ''README.md'' ''.md'', sample_record ''todo.txt'' ''.txt''] = (b, 1, done)
     \<and> map winning_category done = [''Unknown'', ''Notes'']
     \<and> map winning_score done = [0, 2]
     \<and> map file_name (dict_get_default b ''Unknown'' []) = [PStr ''README.md'']
     \<and> map file_name (dict_get_default b ''Notes'' []) = [PStr ''todo.txt'']"
proof -
  let ?a = "sample_record ''README.md'' ''.md''"
  let ?t = "sample_record ''todo.txt'' ''.txt''"
  obtain b e d where c: "classify literal_engine sample_classifier [?a, ?t] = (b, e, d)"
    by (cases "classify literal_engine sample_classifier [?a, ?t]") auto
  have r: "raises literal_engine sample_classifier ?a" "\<not> raises literal_engine sample_classifier ?t"
    by code_simp+
  have o: "winning_category (outcome literal_engine sample_classifier ?t) = ''Notes''"
          "winning_score (outcome literal_engine sample_classifier ?t) = 2"
          "file_name (outcome literal_engine sample_classifier ?a) = PStr ''README.md''"
          "file_name (outcome literal_engine sample_classifier ?t) = PStr ''todo.txt''"
    by code_simp+
  from classify_isolates_record_errors [OF c] r o c show ?thesis by simp
qed

section \<open>Properties of placeholder substitution\<close>

lemma sub_unknown_closing: "CHR ''}'' \<in> set (sub_unknown s) \<Longrightarrow> CHR ''}'' \<in> set s"
proof (induction s rule: sub_unknown.induct)
  case 1
  then show ?case by simp
next
  case (2 c cs)
  show ?case
  proof (cases "c = CHR ''{'' \<and> takeWhile (\<lambda>x. x \<noteq> CHR ''}'') cs \<noteq> []
                 \<and> dropWhile (\<lambda>x. x \<noteq> CHR ''}'') cs \<noteq> []")
    case True
    then have "CHR ''}'' \<in> set cs" by auto
    then show ?thesis by simp
  next
    case False
    with 2 show ?thesis by (auto split: if_splits)
  qed
qed

lemma has_token_plain_append: "CHR ''{'' \<notin> set p \<Longrightarrow> has_token (p @ s) = has_token s"
  by (induction p) (auto simp: token_here_def)

lemma sub_unknown_no_token: "\<not> has_token (sub_unknown s)"
proof (induction s rule: sub_unknown.induct)
  case 1
  then show ?case by simp
next
  case (2 c cs)
  show ?case
  proof (cases "c = CHR ''{'' \<and> takeWhile (\<lambda>x. x \<noteq> CHR ''}'') cs \<noteq> []
                 \<and> dropWhile (\<lambda>x. x \<noteq> CHR ''}'') cs \<noteq> []")
    case True
    with 2(1) have "\<not> has_token (sub_unknown (tl (dropWhile (\<lambda>x. x \<noteq> CHR ''}'') cs)))" by simp
    moreover have "CHR ''{'' \<notin> set ''Unknown''" by simp
    ultimately have "\<not> has_token (''Unknown'' @ sub_unknown (tl (dropWhile (\<lambda>x. x \<noteq> CHR ''}'') cs)))"
      using has_token_plain_append by blast
    with True show ?thesis by simp
  next
    case False
    with 2(2) have ih: "\<not> has_token (sub_unknown cs)" by simp
    have "\<not> token_here (c # sub_unknown cs)"
    proof
      assume t: "token_here (c # sub_unknown cs)"
      then have c: "c = CHR ''{''" and tk: "takeWhile (\<lambda>x. x \<noteq> CHR ''}'') (sub_unknown cs) \<noteq> []"
        and dr: "dropWhile (\<lambda>x. x \<noteq> CHR ''}'') (sub_unknown cs) \<noteq> []"
        by (auto simp: token_here_def)
      from dr have "CHR ''}'' \<in> set (sub_unknown cs)" by auto
      then have "CHR ''}'' \<in> set cs" by (rule sub_unknown_closing)
      then have d: "dropWhile (\<lambda>x. x \<noteq> CHR ''}'') cs \<noteq> []" by auto
      with False c have e: "takeWhile (\<lambda>x. x \<noteq> CHR ''}'') cs = []" by simp
      from d have "cs \<noteq> []" by auto
      with e have "hd cs = CHR ''}''" by (cases cs) (auto split: if_splits)
      with \<open>cs \<noteq> []\<close> obtain cs' where "cs = CHR ''}'' # cs'" by (cases cs) auto
      then have "sub_unknown cs = CHR ''}'' # sub_unknown cs'" by simp
      with tk show False by simp
    qed
    with ih False show ?thesis by auto
  qed
qed

lemma has_token_iff:
  "has_token s \<longleftrightarrow>
     (\<exists>pre t post. s = pre @ ''{'' @ t @ ''}'' @ post \<and> t \<noteq> [] \<and> CHR ''}'' \<notin> set t)"
proof
  show "has_token s \<Longrightarrow> \<exists>pre t post. s = pre @ ''{'' @ t @ ''}'' @ post \<and> t \<noteq> [] \<and> CHR ''}'' \<notin> set t"
  proof (induction s)
    case Nil
    then show ?case by simp
  next
    case (Cons c cs)
    show ?case
    proof (cases "token_here (c # cs)")
      case True
      let ?t = "takeWhile (\<lambda>x. x \<noteq> CHR ''}'') cs"
      let ?d = "dropWhile (\<lambda>x. x \<noteq> CHR ''}'') cs"
      from True have c: "c = CHR ''{''" and t: "?t \<noteq> []" and d: "?d \<noteq> []"
        by (auto simp: token_here_def)
      from d have "hd ?d = CHR ''}''" using hd_dropWhile [of "\<lambda>x. x \<noteq> CHR ''}''" cs] by simp
      with d have "?d = CHR ''}'' # tl ?d" by (cases ?d) auto
      then have "cs = ?t @ CHR ''}'' # tl ?d"
        using takeWhile_dropWhile_id [of "\<lambda>x. x \<noteq> CHR ''}''" cs] by simp
      with c have "c # cs = [] @ ''{'' @ ?t @ ''}'' @ tl ?d" by simp
      moreover have "CHR ''}'' \<notin> set ?t" by (auto dest: set_takeWhileD)
      ultimately show ?thesis using t by blast
    next
      case False
      with Cons.prems have "has_token cs" by simp
      from Cons.IH [OF this] obtain pre t post where
        "cs = pre @ ''{'' @ t @ ''}'' @ post" "t \<noteq> []" "CHR ''}'' \<notin> set t" by blast
      then have "c # cs = (c # pre) @ ''{'' @ t @ ''}'' @ post" by simp
      with \<open>t \<noteq> []\<close> \<open>CHR ''}'' \<notin> set t\<close> show ?thesis by blast
    qed
  qed
next
  assume "\<exists>pre t post. s = pre @ ''{'' @ t @ ''}'' @ post \<and> t \<noteq> [] \<and> CHR ''}'' \<notin> set t"
  then obtain pre t post where s: "s = pre @ ''{'' @ t @ ''}'' @ post" and t: "t \<noteq> []" "CHR ''}'' \<notin> set t"
    by blast
  have tk: "takeWhile (\<lambda>x. x \<noteq> CHR ''}'') (t @ CHR ''}'' # post) = t"
    using t(2) by (induction t) auto
  have dr: "dropWhile (\<lambda>x. x \<noteq> CHR ''}'') (t @ CHR ''}'' # post) = CHR ''}'' # post"
    using t(2) by (induction t) auto
  have "has_token (''{'' @ t @ ''}'' @ post)"
    using t tk dr by (simp add: token_here_def)
  then have "has_token (pre @ ''{'' @ t @ ''}'' @ post)"
    by (induction pre) auto
  with s show "has_token s" by simp
qed

lemma startswith_Cons: "startswith (c # cs) (p # ps) = (c = p \<and> startswith cs ps)"
  by (auto simp: startswith_def)

lemma startswith_Nil [simp]: "startswith s []"
  by (simp add: startswith_def)

lemma startswith_empty_Cons [simp]: "\<not> startswith [] (p # ps)"
  by (simp add: startswith_def)

lemma token_prefix:
  "CHR ''}'' \<notin> set t \<Longrightarrow> CHR ''}'' \<notin> set k \<Longrightarrow>
   startswith (t @ CHR ''}'' # rest) (k @ ''}'') = (t = k)"
proof (induction t arbitrary: k)
  case Nil
  then show ?case by (cases k) (auto simp: startswith_Cons)
next
  case (Cons a t)
  then show ?case by (cases k) (auto simp: startswith_Cons)
qed

lemma replace_scan_plain:
  "CHR ''{'' \<notin> set s \<Longrightarrow>
   replace_scan (CHR ''{'' # k) new (s @ rest) = s @ replace_scan (CHR ''{'' # k) new rest"
  by (induction s) (auto simp: startswith_Cons)

lemma replace_scan_render:
  assumes "list_all well_formed_segment segs" "brace_free k"
  shows "replace_scan (''{'' @ k @ ''}'') new (render segs) = render (map (subst_segment k new) segs)"
  using assms(1)
proof (induction segs)
  case Nil
  then show ?case by (simp add: render_def)
next
  case (Cons seg segs)
  then have ih: "replace_scan (''{'' @ k @ ''}'') new (render segs) = render (map (subst_segment k new) segs)"
    by simp
  show ?case
  proof (cases seg)
    case (Lit s)
    with Cons.prems have "CHR ''{'' \<notin> set s" by (simp add: brace_free_def)
    from replace_scan_plain [OF this, of "k @ ''}''" new "render segs"] ih Lit
    show ?thesis by (simp add: render_def)
  next
    case (Tok t)
    with Cons.prems have t: "CHR ''}'' \<notin> set t" "CHR ''{'' \<notin> set t" by (simp_all add: brace_free_def)
    from assms(2) have k: "CHR ''}'' \<notin> set k" by (simp add: brace_free_def)
    have st: "startswith (CHR ''{'' # t @ CHR ''}'' # render segs) (CHR ''{'' # k @ ''}'') = (t = k)"
      using token_prefix [OF t(1) k] by (simp add: startswith_Cons)
    show ?thesis
    proof (cases "t = k")
      case True
      have "replace_scan (CHR ''{'' # k @ ''}'') new (CHR ''{'' # k @ CHR ''}'' # render segs)
            = new @ replace_scan (CHR ''{'' # k @ ''}'') new (render segs)"
        using st True by simp
      with ih Tok True show ?thesis by (simp add: render_def)
    next
      case False
      have "CHR ''{'' \<notin> set (t @ ''}'')" using t by simp
      from replace_scan_plain [OF this, of "k @ ''}''" new "render segs"]
      have "replace_scan (CHR ''{'' # k @ ''}'') new (t @ CHR ''}'' # render segs)
            = t @ CHR ''}'' # replace_scan (CHR ''{'' # k @ ''}'') new (render segs)"
        by simp
      moreover have "replace_scan (CHR ''{'' # k @ ''}'') new (CHR ''{'' # t @ CHR ''}'' # render segs)
            = CHR ''{'' # replace_scan (CHR ''{'' # k @ ''}'') new (t @ CHR ''}'' # render segs)"
        using st False by simp
      ultimately show ?thesis using ih Tok False by (simp add: render_def)
    qed
  qed
qed

lemma sub_unknown_plain:
  "CHR ''{'' \<notin> set s \<Longrightarrow> sub_unknown (s @ rest) = s @ sub_unknown rest"
  by (induction s) auto

lemma sub_unknown_render:
  "list_all well_formed_segment segs \<Longrightarrow> sub_unknown (render segs) = concat (map plain_segment segs)"
proof (induction segs)
  case Nil
  then show ?case by (simp add: render_def)
next
  case (Cons seg segs)
  then have ih: "sub_unknown (render segs) = concat (map plain_segment segs)" by simp
  show ?case
  proof (cases seg)
    case (Lit s)
    with Cons.prems have "CHR ''{'' \<notin> set s" by (simp add: brace_free_def)
    from sub_unknown_plain [OF this, of "render segs"] ih Lit show ?thesis by (simp add: render_def)
  next
    case (Tok t)
    with Cons.prems have t: "CHR ''}'' \<notin> set t" "t \<noteq> []" by (simp_all add: brace_free_def)
    have tk: "takeWhile (\<lambda>x. x \<noteq> CHR ''}'') (t @ CHR ''}'' # render segs) = t"
      using t(1) by (induction t) auto
    have dr: "dropWhile (\<lambda>x. x \<noteq> CHR ''}'') (t @ CHR ''}'' # render segs) = CHR ''}'' # render segs"
      using t(1) by (induction t) auto
    have "sub_unknown (CHR ''{'' # t @ CHR ''}'' # render segs) = ''Unknown'' @ sub_unknown (render segs)"
      using tk dr t(2) by simp
    with ih Tok show ?thesis by (simp add: render_def)
  qed
qed

lemma subst_all_Lit: "subst_all mapping (Lit s) = Lit s"
  by (induction mapping) (auto simp: subst_all_def)

lemma plain_subst_all: "plain_segment (subst_all mapping seg) = fill_segment mapping seg"
proof (cases seg)
  case (Lit s)
  then show ?thesis by (simp add: subst_all_Lit)
next
  case (Tok t)
  have "plain_segment (subst_all mapping (Tok t)) = fill_segment mapping (Tok t)"
  proof (induction mapping)
    case Nil
    then show ?case by (simp add: subst_all_def)
  next
    case (Cons kv mapping)
    obtain k v where kv: "kv = (k, v)" by (cases kv)
    show ?case
    proof (cases "t = k")
      case True
      have "subst_all (kv # mapping) (Tok t) = subst_all mapping (Lit (placeholder_text v))"
        using kv True by (simp add: subst_all_def)
      with kv True show ?thesis by (simp add: subst_all_Lit)
    next
      case False
      have "subst_all (kv # mapping) (Tok t) = subst_all mapping (Tok t)"
        using kv False by (simp add: subst_all_def)
      with Cons.IH kv False show ?thesis by simp
    qed
  qed
  with Tok show ?thesis by simp
qed

lemma well_formed_subst:
  "well_formed_segment seg \<Longrightarrow> brace_free new \<Longrightarrow> well_formed_segment (subst_segment k new seg)"
  by (cases seg) auto

lemma replace_fold_render:
  assumes "list_all (\<lambda>(k, v). brace_free k \<and> brace_free (placeholder_text v)) mapping"
      and "list_all well_formed_segment segs"
  shows "foldl (\<lambda>result (key, v). py_replace result (''{'' @ key @ ''}'') (placeholder_text v))
           (render segs) mapping
         = render (map (subst_all mapping) segs)
         \<and> list_all well_formed_segment (map (subst_all mapping) segs)"
  using assms
proof (induction mapping arbitrary: segs)
  case Nil
  then show ?case by (simp add: subst_all_def)
next
  case (Cons kv mapping)
  obtain k v where kv: "kv = (k, v)" by (cases kv)
  with Cons.prems have k: "brace_free k" "brace_free (placeholder_text v)"
    and m: "list_all (\<lambda>(k, v). brace_free k \<and> brace_free (placeholder_text v)) mapping"
    by simp_all
  let ?segs = "map (subst_segment k (placeholder_text v)) segs"
  have wf: "list_all well_formed_segment ?segs"
    using Cons.prems(2) k(2) by (simp add: list_all_iff well_formed_subst)
  have step: "py_replace (render segs) (''{'' @ k @ ''}'') (placeholder_text v) = render ?segs"
    using replace_scan_render [OF Cons.prems(2) k(1)] by (simp add: py_replace_def)
  have comp: "subst_all ((k, v) # mapping) = subst_all mapping \<circ> subst_segment k (placeholder_text v)"
    by (auto simp: subst_all_def fun_eq_iff)
  from Cons.IH [OF m wf] step kv show ?case by (simp add: comp comp_def)
qed

lemma replace_placeholders_render:
  assumes "list_all (\<lambda>(k, v). brace_free k \<and> brace_free (placeholder_text v)) mapping"
      and "list_all well_formed_segment segs"
  shows "replace_placeholders (render segs) mapping = concat (map (fill_segment mapping) segs)"
proof -
  from replace_fold_render [OF assms] sub_unknown_render
  have "replace_placeholders (render segs) mapping
        = concat (map plain_segment (map (subst_all mapping) segs))"
    by (simp add: replace_placeholders_def)
  then show ?thesis by (simp add: plain_subst_all comp_def)
qed

text \<open>
  C3 (as amended). For every pattern and mapping the result holds no placeholder: no
  opening brace followed by one or more characters other than a closing brace and a
  closing brace. (An empty pair of braces and a brace without its partner stay.) An empty
  or null value is rendered as "Unknown". For a pattern of brace-free text and
  placeholders, and a mapping whose keys and rendered values are brace-free, each token of
  the mapping is replaced by its rendered value and each other token by "Unknown".
\<close>

theorem replace_placeholders_leaves_no_token:
  "(\<nexists>pre t post. replace_placeholders pat mapping = pre @ ''{'' @ t @ ''}'' @ post
        \<and> t \<noteq> [] \<and> CHR ''}'' \<notin> set t)
   \<and> placeholder_text PNone = ''Unknown'' \<and> placeholder_text (PStr []) = ''Unknown''
   \<and> (list_all (\<lambda>(k, v). brace_free k \<and> brace_free (placeholder_text v)) mapping
        \<and> list_all well_formed_segment segs \<longrightarrow>
      replace_placeholders (render segs) mapping = concat (map (fill_segment mapping) segs))"
proof -
  have "\<not> has_token (replace_placeholders pat mapping)"
    by (simp add: replace_placeholders_def sub_unknown_no_token)
  then have "\<nexists>pre t post. replace_placeholders pat mapping = pre @ ''{'' @ t @ ''}'' @ post
        \<and> t \<noteq> [] \<and> CHR ''}'' \<notin> set t"
    using has_token_iff [of "replace_placeholders pat mapping"] by blast
  moreover have "placeholder_text PNone = ''Unknown''" "placeholder_text (PStr []) = ''Unknown''"
    by (simp_all add: placeholder_text_def)
  ultimately show ?thesis using replace_placeholders_render by blast
qed

text \<open>
  The claim as it was stated fails: an empty pair of braces and an unmatched brace of the
  pattern are in the result, and a value that is itself a placeholder is not what its
  token is replaced with.
\<close>

theorem replace_placeholders_braces_counterexample:
  "replace_placeholders ''Report_{}.txt'' [] = ''Report_{}.txt''
   \<and> replace_placeholders ''Draft{1.txt'' [(''Type'', PStr ''Notes'')] = ''Draft{1.txt''
   \<and> replace_placeholders ''GW_{Type}.txt'' [(''Type'', PStr ''{Kind}'')] = ''GW_Unknown.txt''"
  by code_simp

theorem replace_placeholders_leaves_no_token_witness:
  "replace_placeholders ''GW_{Type}_{Date}.{ext}{Missing}''
     [(''Type'', PStr ''Statistics''), (''Date'', PNone), (''ext'', PStr [])]
   = ''GW_Statistics_Unknown.UnknownUnknown''"
proof -
  let ?segs = "[Lit ''GW_'', Tok ''Type'', Lit ''_'', Tok ''Date'', Lit ''.'', Tok ''ext'', Tok ''Missing'']"
  let ?m = "[(''Type'', PStr ''Statistics''), (''Date'', PNone), (''ext'', PStr [])]"
  have a: "list_all (\<lambda>(k, v). brace_free k \<and> brace_free (placeholder_text v)) ?m"
    by code_simp
  have b: "list_all well_formed_segment ?segs" by code_simp
  have c: "render ?segs = ''GW_{Type}_{Date}.{ext}{Missing}''" by code_simp
  have d: "concat (map (fill_segment ?m) ?segs) = ''GW_Statistics_Unknown.UnknownUnknown''"
    by code_simp
  from replace_placeholders_leaves_no_token [of _ ?m ?segs] a b
  have "replace_placeholders (render ?segs) ?m = concat (map (fill_segment ?m) ?segs)" by blast
  with c d show ?thesis by simp
qed

section \<open>Properties of conflict resolution\<close>












lemma entry_score_rewrite [simp]: "entry_score (rewrite_entry st k e) = entry_score e"
  by (simp add: rewrite_entry_def relocate_def entry_score_def Let_def)

lemma resolve_sorted_length [simp]: "length (resolve_sorted st idxs k es) = length es"
  by (induction idxs arbitrary: k es) auto





lemma sorted_group_length [simp]: "length (sorted_group es idxs) = length idxs"
  by (simp add: sorted_group_def sort_desc_def)

lemma sorted_group_distinct [simp]: "distinct (sorted_group es idxs) = distinct idxs"
  by (simp add: sorted_group_def sort_desc_def)




lemma positions_distinct [simp]: "distinct (positions es p)"
  by (simp add: positions_def)















section \<open>Distinct destinations within a conflict group\<close>




























end
